theory Spec2Isabelle
  imports Main "HOL-Library.AList"
begin

section \<open>The negotiation protocol layer of server/routes.ts\<close>

text \<open>
  The development embeds the WebSocket half of \<^verbatim>\<open>server/routes.ts\<close> (the connection
  handler of \<^verbatim>\<open>setupWebSocketServer\<close>, \<^verbatim>\<open>handleWebSocketMessage\<close> and the handlers it
  dispatches to, \<^verbatim>\<open>cleanupWebSocket\<close>, the broadcast helpers), the frame schema
  \<^verbatim>\<open>wsMessageSchema\<close> of the shared schema file, the storage methods the handlers call, and
  the reconnection logic of the client class \<^verbatim>\<open>NegotiationWebSocket\<close>.

  Conventions of the embedding:
  \<^item> a socket object is known by a handle (\<open>conn\<close>); its fields live in a store
    \<open>sockets\<close>, so that the \<^verbatim>\<open>Set\<close>s of the registry hold handles, as the JavaScript
    \<^verbatim>\<open>Set\<close>s hold references;
  \<^item> a JavaScript \<^verbatim>\<open>Map\<close> is an association list in insertion order, a
    \<^verbatim>\<open>Set\<close> a list in insertion order;
  \<^item> everything a handler does to the outside is appended to \<open>trace\<close>: frames sent,
    sockets closed, writing storage calls;
  \<^item> a storage call may throw. Which calls throw is given by a parameter \<open>fl\<close>:
    \<open>fl op k\<close> says that the \<open>k\<close>-th call of method \<open>op\<close> made by the handler throws;
  \<^item> an \<^verbatim>\<open>async\<close> handler is one atomic state transformer: the interleaving of two
    handlers at an \<^verbatim>\<open>await\<close> is not part of the model;
  \<^item> \<^verbatim>\<open>ws.send\<close> is recorded in the trace whatever the state of the socket is; the
    broadcast loops test \<^verbatim>\<open>readyState\<close> themselves, as the code does;
  \<^item> timestamps (\<^verbatim>\<open>new Date()\<close>, \<^verbatim>\<open>createdAt\<close>, \<^verbatim>\<open>lastSeen\<close>) are left out of
    rows and frames, and so are the ping timer and the log output; a message row's
    generated id is its position in the log;
  \<^item> a JSON number is an integer (\<open>int\<close>); amounts with a fractional part are outside
    the model.
\<close>

subsection \<open>JSON values and the frame schema\<close>

datatype json =
    JNull
  | JBool bool
  | JNum int
  | JStr string
  | JArr "json list"
  | JObj "(string \<times> json) list"

text \<open>Property access \<^verbatim>\<open>j.k\<close>; \<open>None\<close> is \<^verbatim>\<open>undefined\<close>.\<close>

definition field :: "json \<Rightarrow> string \<Rightarrow> json option" where
  "field j k = (case j of JObj kvs \<Rightarrow> map_of kvs k | _ \<Rightarrow> None)"

text \<open>The type \<^verbatim>\<open>z.infer<typeof wsMessageSchema>\<close>: one constructor per member of the
  discriminated union, in the order of the schema.\<close>

datatype WSMessage =
    JoinNegotiation string
  | LeaveNegotiation string
  | NegotiationMessage string string
  | NegotiationOffer string int "string option"
  | NegotiationCounter string int "string option"
  | NegotiationAccept string
  | NegotiationReject string "string option"
  | NegotiationStatus string string
  | PresenceUpdateMsg string bool
  | RequestPresence "string list option"

text \<open>The validators of zod used by the schema. \<open>None\<close> is a thrown \<^verbatim>\<open>ZodError\<close>.\<close>

definition z_string :: "json option \<Rightarrow> string option" where
  "z_string v = (case v of Some (JStr s) \<Rightarrow> Some s | _ \<Rightarrow> None)"

text \<open>\<^verbatim>\<open>z.string().optional()\<close>: an absent field is accepted, \<^verbatim>\<open>null\<close> is not.\<close>

definition z_string_optional :: "json option \<Rightarrow> string option option" where
  "z_string_optional v =
     (case v of None \<Rightarrow> Some None | Some (JStr s) \<Rightarrow> Some (Some s) | _ \<Rightarrow> None)"

definition z_number_positive :: "json option \<Rightarrow> int option" where
  "z_number_positive v = (case v of Some (JNum n) \<Rightarrow> (if 0 < n then Some n else None) | _ \<Rightarrow> None)"

definition z_boolean :: "json option \<Rightarrow> bool option" where
  "z_boolean v = (case v of Some (JBool b) \<Rightarrow> Some b | _ \<Rightarrow> None)"

fun z_string_array :: "json list \<Rightarrow> string list option" where
  "z_string_array [] = Some []"
| "z_string_array (JStr s # js) = map_option ((#) s) (z_string_array js)"
| "z_string_array (_ # js) = None"

definition z_string_array_optional :: "json option \<Rightarrow> string list option option" where
  "z_string_array_optional v =
     (case v of None \<Rightarrow> Some None
      | Some (JArr js) \<Rightarrow> map_option Some (z_string_array js)
      | _ \<Rightarrow> None)"

definition known_types :: "string list" where
  "known_types =
     [''join_negotiation'', ''leave_negotiation'', ''negotiation_message'',
      ''negotiation_offer'', ''negotiation_counter'', ''negotiation_accept'',
      ''negotiation_reject'', ''negotiation_status'', ''presence_update'',
      ''request_presence'']"

text \<open>\<^verbatim>\<open>wsMessageSchema.parse\<close>: the discriminator \<^verbatim>\<open>type\<close> selects the member of the
  union, whose fields are then validated; a discriminator that names no member throws.
  Unknown keys are stripped (the objects are not strict).\<close>

definition wsMessageSchema_parse :: "json \<Rightarrow> WSMessage option" where
  "wsMessageSchema_parse message =
     (case field message ''type'' of
        Some (JStr t) \<Rightarrow>
          if t = ''join_negotiation'' then
            map_option JoinNegotiation (z_string (field message ''negotiationId''))
          else if t = ''leave_negotiation'' then
            map_option LeaveNegotiation (z_string (field message ''negotiationId''))
          else if t = ''negotiation_message'' then
            (case (z_string (field message ''negotiationId''), z_string (field message ''content'')) of
               (Some n, Some c) \<Rightarrow>
                 if 1 \<le> length c \<and> length c \<le> 1000 then Some (NegotiationMessage n c) else None
             | _ \<Rightarrow> None)
          else if t = ''negotiation_offer'' then
            (case (z_string (field message ''negotiationId''),
                   z_number_positive (field message ''amount''),
                   z_string_optional (field message ''message'')) of
               (Some n, Some a, Some m) \<Rightarrow> Some (NegotiationOffer n a m)
             | _ \<Rightarrow> None)
          else if t = ''negotiation_counter'' then
            (case (z_string (field message ''negotiationId''),
                   z_number_positive (field message ''amount''),
                   z_string_optional (field message ''message'')) of
               (Some n, Some a, Some m) \<Rightarrow> Some (NegotiationCounter n a m)
             | _ \<Rightarrow> None)
          else if t = ''negotiation_accept'' then
            map_option NegotiationAccept (z_string (field message ''negotiationId''))
          else if t = ''negotiation_reject'' then
            (case (z_string (field message ''negotiationId''),
                   z_string_optional (field message ''message'')) of
               (Some n, Some m) \<Rightarrow> Some (NegotiationReject n m)
             | _ \<Rightarrow> None)
          else if t = ''negotiation_status'' then
            (case (z_string (field message ''negotiationId''), z_string (field message ''status'')) of
               (Some n, Some st) \<Rightarrow>
                 if st \<in> set [''active'', ''completed'', ''cancelled'']
                 then Some (NegotiationStatus n st) else None
             | _ \<Rightarrow> None)
          else if t = ''presence_update'' then
            (case (z_string (field message ''userId''), z_boolean (field message ''isOnline'')) of
               (Some u, Some b) \<Rightarrow> Some (PresenceUpdateMsg u b)
             | _ \<Rightarrow> None)
          else if t = ''request_presence'' then
            map_option RequestPresence (z_string_array_optional (field message ''userIds''))
          else None
      | _ \<Rightarrow> None)"

text \<open>The text \<^verbatim>\<open>${message.type}\<close> of a template string: the string itself, or
  \<^verbatim>\<open>undefined\<close> for an absent field. Other values do not occur where the model uses it.\<close>

definition type_text :: "json \<Rightarrow> string" where
  "type_text message =
     (case field message ''type'' of Some (JStr t) \<Rightarrow> t | _ \<Rightarrow> ''undefined'')"

text \<open>\<^verbatim>\<open>amount.toString()\<close> and \<^verbatim>\<open>${amount}\<close> for an integer below \<open>10^21\<close>.\<close>

fun digits :: "nat \<Rightarrow> string" where
  "digits n = (if n < 10 then [''0123456789'' ! n]
               else digits (n div 10) @ [''0123456789'' ! (n mod 10)])"

declare digits.simps [simp del]

definition num_toString :: "int \<Rightarrow> string" where
  "num_toString i = (if i < 0 then ''-'' @ digits (nat (- i)) else digits (nat i))"

subsection \<open>Sockets, frames, storage rows\<close>

type_synonym conn = nat

datatype readyState = CONNECTING | OPEN | CLOSING | CLOSED

text \<open>\<^verbatim>\<open>AuthenticatedWebSocket\<close>. \<open>listening\<close> says that the connection handler has
  attached the \<^verbatim>\<open>message\<close>, \<^verbatim>\<open>close\<close> and \<^verbatim>\<open>error\<close> listeners.\<close>

record socket =
  userId :: "string option"
  isAuthenticated :: bool
  readyState :: readyState
  listening :: bool

datatype message_type = Chat | Offer | Counter | Accept | Reject | Status

text \<open>A row of \<^verbatim>\<open>negotiations\<close> (the columns the protocol layer reads or writes; the key
  \<^verbatim>\<open>id\<close> is the key of the table below). \<^verbatim>\<open>status\<close> is a nullable text column;
  \<^verbatim>\<open>current_offer\<close> is a decimal column, kept here as the number written.\<close>

record negotiation =
  productId :: string
  buyerId :: string
  sellerId :: string
  status :: "string option"
  currentOffer :: "int option"

record user =
  username :: "string option"
  isOnline :: bool

record message_row =
  m_id :: nat
  m_negotiationId :: string
  m_senderId :: string
  m_messageType :: message_type
  m_content :: string
  m_amount :: "int option"

text \<open>The \<^verbatim>\<open>message\<close> object of a \<^verbatim>\<open>negotiation_update\<close> broadcast.\<close>

record update_msg =
  u_id :: nat
  u_senderId :: "string option"
  u_senderName :: string
  u_messageType :: message_type
  u_content :: string
  u_amount :: "int option"

record presence_row =
  p_id :: string
  p_username :: string
  p_isOnline :: bool

datatype frame =
    ErrorFrame string
  | ConnectionConfirmed "string option" "string option"
  | NegotiationJoined string
  | NegotiationLeft string
  | NegotiationUpdate string update_msg
  | PresenceUpdate string "string option" bool
  | PresenceUpdated string bool
  | PresenceData "presence_row list"
  | NegotiationStatusUpdate string string "string option" string string

datatype storage_op =
    GetNegotiation | UpdateNegotiation | UpdateNegotiationStatus | CreateMessage
  | GetUser | UpdateUserOnlineStatus | SetUserLastSeen | GetUsersOnlineStatus

type_synonym faults = "storage_op \<Rightarrow> nat \<Rightarrow> bool"

datatype storage_write =
    WriteOffer string int
  | WriteStatus string string
  | InsertMessage message_row
  | WriteOnline string bool
  | WriteLastSeen string

text \<open>What the server does to the world: a frame sent on a socket, a socket closed with a
  code and a reason, a storage write, and an upgrade request refused with an HTTP status
  (no socket object exists then).\<close>

datatype effect =
    WsSend conn frame
  | WsClose conn nat string
  | Storage storage_write
  | UpgradeRefused nat

text \<open>\<open>next_conn\<close> is the handle the next socket object gets: a \<^verbatim>\<open>connection\<close> event always
  carries a new object.\<close>

record state =
  sockets :: "conn \<Rightarrow> socket"
  next_conn :: conn
  userSockets :: "(string \<times> conn list) list"
  negotiationRooms :: "(string \<times> conn list) list"
  negotiations :: "string \<rightharpoonup> negotiation"
  users :: "string \<rightharpoonup> user"
  messages :: "message_row list"
  trace :: "effect list"

datatype 'a outcome = Throws | Returns 'a

subsection \<open>Sets, sending and closing\<close>

definition set_add :: "'a \<Rightarrow> 'a list \<Rightarrow> 'a list" where
  "set_add ws xs = (if ws \<in> set xs then xs else xs @ [ws])"

definition set_delete :: "'a \<Rightarrow> 'a list \<Rightarrow> 'a list" where
  "set_delete ws xs = removeAll ws xs"

definition ws_send :: "conn \<Rightarrow> frame \<Rightarrow> state \<Rightarrow> state" where
  "ws_send ws f s = s\<lparr>trace := trace s @ [WsSend ws f]\<rparr>"

text \<open>\<^verbatim>\<open>ws.close(code, reason)\<close> starts the closing handshake.\<close>

definition ws_close :: "conn \<Rightarrow> nat \<Rightarrow> string \<Rightarrow> state \<Rightarrow> state" where
  "ws_close ws code reason s =
     s\<lparr>sockets := (sockets s)(ws := (sockets s ws)\<lparr>readyState := CLOSING\<rparr>),
       trace := trace s @ [WsClose ws code reason]\<rparr>"

text \<open>\<^verbatim>\<open>set.forEach(socket => { if (socket.readyState === WebSocket.OPEN) socket.send(...) })\<close>\<close>

definition send_each_open :: "conn list \<Rightarrow> frame \<Rightarrow> state \<Rightarrow> state" where
  "send_each_open socketSet f s =
     foldl (\<lambda>s' socket. if readyState (sockets s' socket) = OPEN then ws_send socket f s' else s')
       s socketSet"

definition broadcastToNegotiation :: "string \<Rightarrow> frame \<Rightarrow> state \<Rightarrow> state" where
  "broadcastToNegotiation negotiationId f s =
     (case map_of (negotiationRooms s) negotiationId of
        None \<Rightarrow> s
      | Some room \<Rightarrow> send_each_open room f s)"

definition broadcastNegotiationUpdate :: "string \<Rightarrow> update_msg \<Rightarrow> state \<Rightarrow> state" where
  "broadcastNegotiationUpdate negotiationId message s =
     broadcastToNegotiation negotiationId (NegotiationUpdate negotiationId message) s"

definition broadcastPresenceUpdate :: "string \<Rightarrow> string option \<Rightarrow> bool \<Rightarrow> state \<Rightarrow> state" where
  "broadcastPresenceUpdate uid uname online s =
     foldl (\<lambda>s' (connectedUserId, socketSet).
              if connectedUserId \<noteq> uid then send_each_open socketSet (PresenceUpdate uid uname online) s'
              else s')
       s (userSockets s)"

definition getConnectedUsers :: "state \<Rightarrow> string list" where
  "getConnectedUsers s = map fst (userSockets s)"

subsection \<open>Truthiness\<close>

text \<open>\<^verbatim>\<open>!x\<close> for an optional string: \<^verbatim>\<open>undefined\<close> and the empty string are falsy.\<close>

definition falsy :: "string option \<Rightarrow> bool" where
  "falsy x = (x = None \<or> x = Some [])"

text \<open>\<^verbatim>\<open>x || d\<close> for an optional string.\<close>

definition or_else :: "string option \<Rightarrow> string \<Rightarrow> string" where
  "or_else x d = (case x of None \<Rightarrow> d | Some v \<Rightarrow> if v = [] then d else v)"

text \<open>\<^verbatim>\<open>sender?.username || 'Unknown'\<close>\<close>

definition sender_name :: "user option \<Rightarrow> string" where
  "sender_name sender =
     (case sender of None \<Rightarrow> ''Unknown'' | Some u \<Rightarrow> or_else (username u) ''Unknown'')"

subsection \<open>The storage methods (class DatabaseStorage)\<close>

definition getNegotiation :: "faults \<Rightarrow> nat \<Rightarrow> string \<Rightarrow> state \<Rightarrow> negotiation option outcome" where
  "getNegotiation fl k ident s =
     (if fl GetNegotiation k then Throws else Returns (negotiations s ident))"

text \<open>\<^verbatim>\<open>updateNegotiation(id, { currentOffer: amount.toString(), updatedAt })\<close>: an update of
  no row when the id is absent.\<close>

definition updateNegotiation :: "faults \<Rightarrow> nat \<Rightarrow> string \<Rightarrow> int \<Rightarrow> state \<Rightarrow> state outcome" where
  "updateNegotiation fl k ident amount s =
     (if fl UpdateNegotiation k then Throws
      else Returns (s\<lparr>negotiations :=
                        (case negotiations s ident of
                           None \<Rightarrow> negotiations s
                         | Some n \<Rightarrow> (negotiations s)(ident \<mapsto> n\<lparr>currentOffer := Some amount\<rparr>)),
                      trace := trace s @ [Storage (WriteOffer ident amount)]\<rparr>))"

definition updateNegotiationStatus :: "faults \<Rightarrow> nat \<Rightarrow> string \<Rightarrow> string \<Rightarrow> state \<Rightarrow> state outcome" where
  "updateNegotiationStatus fl k ident st s =
     (if fl UpdateNegotiationStatus k then Throws
      else Returns (s\<lparr>negotiations :=
                        (case negotiations s ident of
                           None \<Rightarrow> negotiations s
                         | Some n \<Rightarrow> (negotiations s)(ident \<mapsto> n\<lparr>status := Some st\<rparr>)),
                      trace := trace s @ [Storage (WriteStatus ident st)]\<rparr>))"

text \<open>\<^verbatim>\<open>createMessage\<close> inserts one row and returns it. The column \<^verbatim>\<open>sender_id\<close> is
  \<^verbatim>\<open>notNull\<close>: an insert without a sender throws.\<close>

definition createMessage ::
  "faults \<Rightarrow> nat \<Rightarrow> string \<Rightarrow> string option \<Rightarrow> message_type \<Rightarrow> string \<Rightarrow> int option \<Rightarrow> state
     \<Rightarrow> (message_row \<times> state) outcome" where
  "createMessage fl k negotiationId senderId messageType content amount s =
     (if fl CreateMessage k then Throws
      else case senderId of
        None \<Rightarrow> Throws
      | Some sid \<Rightarrow>
          let row = \<lparr>m_id = length (messages s), m_negotiationId = negotiationId, m_senderId = sid,
                     m_messageType = messageType, m_content = content, m_amount = amount\<rparr>
          in Returns (row, s\<lparr>messages := messages s @ [row],
                            trace := trace s @ [Storage (InsertMessage row)]\<rparr>))"

definition getUser :: "faults \<Rightarrow> nat \<Rightarrow> string option \<Rightarrow> state \<Rightarrow> user option outcome" where
  "getUser fl k ident s =
     (if fl GetUser k then Throws
      else Returns (case ident of None \<Rightarrow> None | Some i \<Rightarrow> users s i))"

definition updateUserOnlineStatus ::
  "faults \<Rightarrow> nat \<Rightarrow> string \<Rightarrow> bool \<Rightarrow> state \<Rightarrow> (user option \<times> state) outcome" where
  "updateUserOnlineStatus fl k uid online s =
     (if fl UpdateUserOnlineStatus k then Throws
      else Returns
        (map_option (\<lambda>u. u\<lparr>isOnline := online\<rparr>) (users s uid),
         s\<lparr>users := (case users s uid of
                        None \<Rightarrow> users s
                      | Some u \<Rightarrow> (users s)(uid \<mapsto> u\<lparr>isOnline := online\<rparr>)),
           trace := trace s @ [Storage (WriteOnline uid online)]\<rparr>))"

definition setUserLastSeen :: "faults \<Rightarrow> nat \<Rightarrow> string \<Rightarrow> state \<Rightarrow> state outcome" where
  "setUserLastSeen fl k uid s =
     (if fl SetUserLastSeen k then Throws
      else Returns (s\<lparr>trace := trace s @ [Storage (WriteLastSeen uid)]\<rparr>))"

text \<open>The rows come back in the order of the requested ids (SQL leaves the order open).\<close>

definition getUsersOnlineStatus ::
  "faults \<Rightarrow> nat \<Rightarrow> string list \<Rightarrow> state \<Rightarrow> presence_row list outcome" where
  "getUsersOnlineStatus fl k userIds s =
     (if userIds = [] then Returns []
      else if fl GetUsersOnlineStatus k then Throws
      else Returns
        (List.map_filter
           (\<lambda>i. case users s i of
                   None \<Rightarrow> None
                 | Some u \<Rightarrow> Some \<lparr>p_id = i, p_username = or_else (username u) ''Unknown'',
                                   p_isOnline = isOnline u\<rparr>)
           (remdups userIds)))"

subsection \<open>The registry: userSockets and negotiationRooms\<close>

text \<open>\<^verbatim>\<open>if (!m.has(k)) m.set(k, new Set()); m.get(k)!.add(ws)\<close>\<close>

definition registry_add :: "string \<Rightarrow> conn \<Rightarrow> (string \<times> conn list) list \<Rightarrow> (string \<times> conn list) list" where
  "registry_add k ws m =
     (let m1 = (if map_of m k = None then AList.update k [] m else m)
      in case map_of m1 k of
           Some xs \<Rightarrow> AList.update k (set_add ws xs) m1
         | None \<Rightarrow> m1)"

text \<open>\<^verbatim>\<open>room.delete(ws); if (room.size === 0) m.delete(k)\<close> for a room that exists.\<close>

definition registry_remove :: "string \<Rightarrow> conn \<Rightarrow> (string \<times> conn list) list \<Rightarrow> (string \<times> conn list) list" where
  "registry_remove k ws m =
     (case map_of m k of
        None \<Rightarrow> m
      | Some room \<Rightarrow>
          if set_delete ws room = [] then AList.delete k m
          else AList.update k (set_delete ws room) m)"

text \<open>The loop of \<^verbatim>\<open>cleanupWebSocket\<close> over all rooms: a room that holds the socket loses
  it, and is dropped when it becomes empty; other rooms stay.\<close>

definition cleanup_rooms :: "conn \<Rightarrow> (string \<times> conn list) list \<Rightarrow> (string \<times> conn list) list" where
  "cleanup_rooms ws rooms =
     map (\<lambda>(negotiationId, room). (negotiationId, set_delete ws room))
       (filter (\<lambda>(negotiationId, room). \<not> (ws \<in> set room \<and> set_delete ws room = [])) rooms)"

subsection \<open>validateNegotiationAccess and the negotiation handlers\<close>

datatype access = Denied string | Granted negotiation

definition validateNegotiationAccess ::
  "faults \<Rightarrow> string option \<Rightarrow> string \<Rightarrow> state \<Rightarrow> access outcome" where
  "validateNegotiationAccess fl uid negotiationId s =
     (case getNegotiation fl 0 negotiationId s of
        Throws \<Rightarrow> Throws
      | Returns None \<Rightarrow> Returns (Denied ''Negotiation not found'')
      | Returns (Some negotiation) \<Rightarrow>
          if status negotiation = Some ''completed'' \<or> status negotiation = Some ''cancelled''
          then Returns (Denied ''Cannot modify completed or cancelled negotiation'')
          else if Some (buyerId negotiation) \<noteq> uid \<and> Some (sellerId negotiation) \<noteq> uid
          then Returns (Denied ''Access denied to this negotiation'')
          else Returns (Granted negotiation))"

text \<open>The common tail of the handlers: \<^verbatim>\<open>getUser\<close> for the sender's name, then the broadcast
  of the row just persisted.\<close>

definition name_and_broadcast ::
  "faults \<Rightarrow> conn \<Rightarrow> string \<Rightarrow> message_row \<Rightarrow> message_type \<Rightarrow> string \<Rightarrow> int option
     \<Rightarrow> state \<Rightarrow> state outcome" where
  "name_and_broadcast fl ws negotiationId row messageType content amount s =
     (case getUser fl 0 (userId (sockets s ws)) s of
        Throws \<Rightarrow> Throws
      | Returns sender \<Rightarrow>
          Returns (broadcastNegotiationUpdate negotiationId
            \<lparr>u_id = m_id row, u_senderId = userId (sockets s ws),
             u_senderName = sender_name sender, u_messageType = messageType,
             u_content = content, u_amount = amount\<rparr> s))"

definition handleNegotiationMessage :: "faults \<Rightarrow> conn \<Rightarrow> string \<Rightarrow> string \<Rightarrow> state \<Rightarrow> state" where
  "handleNegotiationMessage fl ws negotiationId content s =
     (let failed = ws_send ws (ErrorFrame ''Failed to send message'') in
      case validateNegotiationAccess fl (userId (sockets s ws)) negotiationId s of
        Throws \<Rightarrow> failed s
      | Returns (Denied err) \<Rightarrow> ws_send ws (ErrorFrame err) s
      | Returns (Granted negotiation) \<Rightarrow>
          (case createMessage fl 0 negotiationId (userId (sockets s ws)) Chat content None s of
             Throws \<Rightarrow> failed s
           | Returns (message, s1) \<Rightarrow>
               (case name_and_broadcast fl ws negotiationId message
                       Chat content None s1 of
                  Throws \<Rightarrow> failed s1
                | Returns s2 \<Rightarrow> s2)))"

definition handleNegotiationOffer ::
  "faults \<Rightarrow> conn \<Rightarrow> string \<Rightarrow> int \<Rightarrow> string option \<Rightarrow> state \<Rightarrow> state" where
  "handleNegotiationOffer fl ws negotiationId amount message s =
     (let failed = ws_send ws (ErrorFrame ''Failed to make offer'');
          content = or_else message (''Offered $'' @ num_toString amount) in
      case validateNegotiationAccess fl (userId (sockets s ws)) negotiationId s of
        Throws \<Rightarrow> failed s
      | Returns (Denied err) \<Rightarrow> ws_send ws (ErrorFrame err) s
      | Returns (Granted negotiation) \<Rightarrow>
          if Some (buyerId negotiation) \<noteq> userId (sockets s ws)
          then ws_send ws (ErrorFrame ''Only buyers can make offers'') s
          else
            (case updateNegotiation fl 0 negotiationId amount s of
               Throws \<Rightarrow> failed s
             | Returns s1 \<Rightarrow>
                 (case createMessage fl 0 negotiationId (userId (sockets s1 ws)) Offer content
                         (Some amount) s1 of
                    Throws \<Rightarrow> failed s1
                  | Returns (offerMessage, s2) \<Rightarrow>
                      (case name_and_broadcast fl ws negotiationId offerMessage Offer content (Some amount) s2 of
                         Throws \<Rightarrow> failed s2
                       | Returns s3 \<Rightarrow> s3))))"

definition handleNegotiationCounter ::
  "faults \<Rightarrow> conn \<Rightarrow> string \<Rightarrow> int \<Rightarrow> string option \<Rightarrow> state \<Rightarrow> state" where
  "handleNegotiationCounter fl ws negotiationId amount message s =
     (let failed = ws_send ws (ErrorFrame ''Failed to make counter offer'');
          content = or_else message (''Counter offer: $'' @ num_toString amount) in
      case validateNegotiationAccess fl (userId (sockets s ws)) negotiationId s of
        Throws \<Rightarrow> failed s
      | Returns (Denied err) \<Rightarrow> ws_send ws (ErrorFrame err) s
      | Returns (Granted negotiation) \<Rightarrow>
          if Some (sellerId negotiation) \<noteq> userId (sockets s ws)
          then ws_send ws (ErrorFrame ''Only sellers can make counter offers'') s
          else
            (case updateNegotiation fl 0 negotiationId amount s of
               Throws \<Rightarrow> failed s
             | Returns s1 \<Rightarrow>
                 (case createMessage fl 0 negotiationId (userId (sockets s1 ws)) Counter content
                         (Some amount) s1 of
                    Throws \<Rightarrow> failed s1
                  | Returns (counterMessage, s2) \<Rightarrow>
                      (case name_and_broadcast fl ws negotiationId counterMessage Counter content (Some amount) s2 of
                         Throws \<Rightarrow> failed s2
                       | Returns s3 \<Rightarrow> s3))))"

definition handleNegotiationAccept :: "faults \<Rightarrow> conn \<Rightarrow> string \<Rightarrow> state \<Rightarrow> state" where
  "handleNegotiationAccept fl ws negotiationId s =
     (let failed = ws_send ws (ErrorFrame ''Failed to accept offer'') in
      case validateNegotiationAccess fl (userId (sockets s ws)) negotiationId s of
        Throws \<Rightarrow> failed s
      | Returns (Denied err) \<Rightarrow> ws_send ws (ErrorFrame err) s
      | Returns (Granted negotiation) \<Rightarrow>
          (case updateNegotiationStatus fl 0 negotiationId ''completed'' s of
             Throws \<Rightarrow> failed s
           | Returns s1 \<Rightarrow>
               (case createMessage fl 0 negotiationId (userId (sockets s1 ws)) Accept
                       ''Offer accepted!'' None s1 of
                  Throws \<Rightarrow> failed s1
                | Returns (acceptMessage, s2) \<Rightarrow>
                    (case name_and_broadcast fl ws negotiationId acceptMessage Accept ''Offer accepted!'' None s2 of
                       Throws \<Rightarrow> failed s2
                     | Returns s3 \<Rightarrow> s3))))"

definition handleNegotiationReject ::
  "faults \<Rightarrow> conn \<Rightarrow> string \<Rightarrow> string option \<Rightarrow> state \<Rightarrow> state" where
  "handleNegotiationReject fl ws negotiationId message s =
     (let failed = ws_send ws (ErrorFrame ''Failed to reject offer'');
          content = or_else message ''Offer rejected'' in
      case validateNegotiationAccess fl (userId (sockets s ws)) negotiationId s of
        Throws \<Rightarrow> failed s
      | Returns (Denied err) \<Rightarrow> ws_send ws (ErrorFrame err) s
      | Returns (Granted negotiation) \<Rightarrow>
          (case createMessage fl 0 negotiationId (userId (sockets s ws)) Reject content None s of
             Throws \<Rightarrow> failed s
           | Returns (rejectMessage, s1) \<Rightarrow>
               (case name_and_broadcast fl ws negotiationId rejectMessage Reject content None s1 of
                  Throws \<Rightarrow> failed s1
                | Returns s2 \<Rightarrow> s2)))"

text \<open>\<^verbatim>\<open>broadcastNegotiationStatusUpdate\<close> has a \<^verbatim>\<open>try\<close> of its own, whose \<^verbatim>\<open>catch\<close> only
  logs. It makes the handler's second calls of \<^verbatim>\<open>getNegotiation\<close> and \<^verbatim>\<open>getUser\<close>.\<close>

definition broadcastNegotiationStatusUpdate ::
  "faults \<Rightarrow> string \<Rightarrow> string \<Rightarrow> string option \<Rightarrow> string \<Rightarrow> state \<Rightarrow> state" where
  "broadcastNegotiationStatusUpdate fl negotiationId st changedBy context s =
     (case getNegotiation fl 1 negotiationId s of
        Throws \<Rightarrow> s
      | Returns None \<Rightarrow> s
      | Returns (Some negotiation) \<Rightarrow>
          (case getUser fl 1 changedBy s of
             Throws \<Rightarrow> s
           | Returns changedByUser \<Rightarrow>
               foldl (\<lambda>s' participantId.
                        case map_of (userSockets s') participantId of
                          None \<Rightarrow> s'
                        | Some userSocketSet \<Rightarrow>
                            send_each_open userSocketSet
                              (NegotiationStatusUpdate negotiationId st changedBy
                                 (sender_name changedByUser) context) s')
                 s [buyerId negotiation, sellerId negotiation]))"

definition handleNegotiationStatus :: "faults \<Rightarrow> conn \<Rightarrow> string \<Rightarrow> string \<Rightarrow> state \<Rightarrow> state" where
  "handleNegotiationStatus fl ws negotiationId st s =
     (let failed = ws_send ws (ErrorFrame ''Failed to update status'');
          content = ''Negotiation status changed to: '' @ st in
      case validateNegotiationAccess fl (userId (sockets s ws)) negotiationId s of
        Throws \<Rightarrow> failed s
      | Returns (Denied err) \<Rightarrow> ws_send ws (ErrorFrame err) s
      | Returns (Granted negotiation) \<Rightarrow>
          (case updateNegotiationStatus fl 0 negotiationId st s of
             Throws \<Rightarrow> failed s
           | Returns s1 \<Rightarrow>
               (case createMessage fl 0 negotiationId (userId (sockets s1 ws)) Status content
                       None s1 of
                  Throws \<Rightarrow> failed s1
                | Returns (statusMessage, s2) \<Rightarrow>
                    (case name_and_broadcast fl ws negotiationId statusMessage Status content None s2 of
                       Throws \<Rightarrow> failed s2
                     | Returns s3 \<Rightarrow>
                         broadcastNegotiationStatusUpdate fl negotiationId st
                           (userId (sockets s3 ws)) content s3))))"

subsection \<open>Rooms and presence\<close>

definition handleJoinNegotiation :: "faults \<Rightarrow> conn \<Rightarrow> string \<Rightarrow> state \<Rightarrow> state" where
  "handleJoinNegotiation fl ws negotiationId s =
     (if negotiationId = [] \<or> falsy (userId (sockets s ws))
      then ws_send ws (ErrorFrame ''Invalid negotiation ID'') s
      else
        case getNegotiation fl 0 negotiationId s of
          Throws \<Rightarrow> ws_send ws (ErrorFrame ''Failed to join negotiation'') s
        | Returns None \<Rightarrow> ws_send ws (ErrorFrame ''Negotiation not found'') s
        | Returns (Some negotiation) \<Rightarrow>
            if Some (buyerId negotiation) \<noteq> userId (sockets s ws)
               \<and> Some (sellerId negotiation) \<noteq> userId (sockets s ws)
            then ws_send ws (ErrorFrame ''Access denied to this negotiation'') s
            else
              ws_send ws (NegotiationJoined negotiationId)
                (s\<lparr>negotiationRooms := registry_add negotiationId ws (negotiationRooms s)\<rparr>))"

definition handleLeaveNegotiation :: "conn \<Rightarrow> string \<Rightarrow> state \<Rightarrow> state" where
  "handleLeaveNegotiation ws negotiationId s =
     (if negotiationId = [] then s
      else
        ws_send ws (NegotiationLeft negotiationId)
          (s\<lparr>negotiationRooms := registry_remove negotiationId ws (negotiationRooms s)\<rparr>))"

definition handlePresenceUpdate :: "faults \<Rightarrow> conn \<Rightarrow> string \<Rightarrow> bool \<Rightarrow> state \<Rightarrow> state" where
  "handlePresenceUpdate fl ws uid online s =
     (if userId (sockets s ws) \<noteq> Some uid
      then ws_send ws (ErrorFrame ''Cannot update presence for other users'') s
      else
        case updateUserOnlineStatus fl 0 uid online s of
          Throws \<Rightarrow> ws_send ws (ErrorFrame ''Failed to update presence'') s
        | Returns (None, s1) \<Rightarrow> s1
        | Returns (Some u, s1) \<Rightarrow>
            ws_send ws (PresenceUpdated uid online)
              (broadcastPresenceUpdate uid (Some (or_else (username u) ''Unknown'')) online s1))"

definition handlePresenceRequest :: "faults \<Rightarrow> conn \<Rightarrow> string list option \<Rightarrow> state \<Rightarrow> state" where
  "handlePresenceRequest fl ws userIds s =
     (if falsy (userId (sockets s ws)) then ws_send ws (ErrorFrame ''Not authenticated'') s
      else
        let targetUserIds = (case userIds of Some ids \<Rightarrow> ids | None \<Rightarrow> getConnectedUsers s) in
        case getUsersOnlineStatus fl 0 targetUserIds s of
          Throws \<Rightarrow> ws_send ws (ErrorFrame ''Failed to get presence data'') s
        | Returns usersPresence \<Rightarrow> ws_send ws (PresenceData usersPresence) s)"

subsection \<open>handleWebSocketMessage\<close>

text \<open>The value of \<^verbatim>\<open>validatedMessage.type\<close>.\<close>

fun type_of :: "WSMessage \<Rightarrow> string" where
  "type_of (JoinNegotiation _) = ''join_negotiation''"
| "type_of (LeaveNegotiation _) = ''leave_negotiation''"
| "type_of (NegotiationMessage _ _) = ''negotiation_message''"
| "type_of (NegotiationOffer _ _ _) = ''negotiation_offer''"
| "type_of (NegotiationCounter _ _ _) = ''negotiation_counter''"
| "type_of (NegotiationAccept _) = ''negotiation_accept''"
| "type_of (NegotiationReject _ _) = ''negotiation_reject''"
| "type_of (NegotiationStatus _ _) = ''negotiation_status''"
| "type_of (PresenceUpdateMsg _ _) = ''presence_update''"
| "type_of (RequestPresence _) = ''request_presence''"

text \<open>The ten \<^verbatim>\<open>case\<close> arms of the \<^verbatim>\<open>switch\<close>.\<close>

fun dispatch :: "faults \<Rightarrow> conn \<Rightarrow> WSMessage \<Rightarrow> state \<Rightarrow> state" where
  "dispatch fl ws (JoinNegotiation negotiationId) s = handleJoinNegotiation fl ws negotiationId s"
| "dispatch fl ws (LeaveNegotiation negotiationId) s = handleLeaveNegotiation ws negotiationId s"
| "dispatch fl ws (NegotiationMessage negotiationId content) s =
     handleNegotiationMessage fl ws negotiationId content s"
| "dispatch fl ws (NegotiationOffer negotiationId amount message) s =
     handleNegotiationOffer fl ws negotiationId amount message s"
| "dispatch fl ws (NegotiationCounter negotiationId amount message) s =
     handleNegotiationCounter fl ws negotiationId amount message s"
| "dispatch fl ws (NegotiationAccept negotiationId) s = handleNegotiationAccept fl ws negotiationId s"
| "dispatch fl ws (NegotiationReject negotiationId message) s =
     handleNegotiationReject fl ws negotiationId message s"
| "dispatch fl ws (NegotiationStatus negotiationId st) s =
     handleNegotiationStatus fl ws negotiationId st s"
| "dispatch fl ws (PresenceUpdateMsg uid online) s = handlePresenceUpdate fl ws uid online s"
| "dispatch fl ws (RequestPresence userIds) s = handlePresenceRequest fl ws userIds s"

text \<open>The guard, the validation inside \<^verbatim>\<open>try\<close>, the \<^verbatim>\<open>switch\<close> with its \<^verbatim>\<open>default\<close> arm,
  and the \<^verbatim>\<open>catch\<close> of the validation.\<close>

definition handleWebSocketMessage :: "faults \<Rightarrow> conn \<Rightarrow> json \<Rightarrow> state \<Rightarrow> state" where
  "handleWebSocketMessage fl ws message s =
     (if \<not> isAuthenticated (sockets s ws) \<or> falsy (userId (sockets s ws))
      then ws_send ws (ErrorFrame ''Not authenticated'') s
      else
        case wsMessageSchema_parse message of
          None \<Rightarrow> ws_send ws (ErrorFrame ''Invalid message format'') s
        | Some validatedMessage \<Rightarrow>
            if type_of validatedMessage \<in> set known_types
            then dispatch fl ws validatedMessage s
            else ws_send ws (ErrorFrame (''Unknown message type: '' @ type_text message)) s)"

subsection \<open>The connection handler and cleanupWebSocket\<close>

text \<open>The payload \<^verbatim>\<open>jwt.verify\<close> returns. The verification itself belongs to the library
  \<^verbatim>\<open>jsonwebtoken\<close>: it is the parameter \<open>jwt_verify\<close> below, \<open>None\<close> when it throws.\<close>

record decoded =
  d_userId :: "string option"
  d_username :: "string option"

definition on_connection ::
  "(string \<Rightarrow> decoded option) \<Rightarrow> faults \<Rightarrow> conn \<Rightarrow> string option \<Rightarrow> state \<Rightarrow> state" where
  "on_connection jwt_verify fl ws token s =
     (if falsy token then ws_close ws 1008 ''Authentication token required'' s
      else
        case jwt_verify (or_else token []) of
          None \<Rightarrow> ws_close ws 1008 ''Authentication failed'' s
        | Some dec \<Rightarrow>
            if falsy (d_userId dec) then ws_close ws 1008 ''Invalid token payload'' s
            else
              let uid = or_else (d_userId dec) [];
                  s1 = s\<lparr>sockets := (sockets s)
                           (ws := (sockets s ws)\<lparr>userId := Some uid, isAuthenticated := True\<rparr>)\<rparr>;
                  s2 = s1\<lparr>userSockets := registry_add uid ws (userSockets s1)\<rparr>;
                  s3 = (case updateUserOnlineStatus fl 0 uid True s2 of
                          Throws \<Rightarrow> s2
                        | Returns (u, s') \<Rightarrow> broadcastPresenceUpdate uid (d_username dec) True s');
                  s4 = ws_send ws (ConnectionConfirmed (userId (sockets s3 ws)) (d_username dec)) s3
              in s4\<lparr>sockets := (sockets s4)(ws := (sockets s4 ws)\<lparr>listening := True\<rparr>)\<rparr>)"

definition cleanupWebSocket :: "faults \<Rightarrow> conn \<Rightarrow> state \<Rightarrow> state" where
  "cleanupWebSocket fl ws s =
     (if falsy (userId (sockets s ws)) then s
      else
        let uid = or_else (userId (sockets s ws)) [];
            s1 =
              (case map_of (userSockets s) uid of
                 None \<Rightarrow> s
               | Some userSocketSet \<Rightarrow>
                   let sA = s\<lparr>userSockets := AList.update uid (set_delete ws userSocketSet) (userSockets s)\<rparr>
                   in if set_delete ws userSocketSet = [] then
                        let sB = sA\<lparr>userSockets := AList.delete uid (userSockets sA)\<rparr> in
                        (case updateUserOnlineStatus fl 0 uid False sB of
                           Throws \<Rightarrow> sB
                         | Returns (u, sC) \<Rightarrow>
                             (case setUserLastSeen fl 0 uid sC of
                                Throws \<Rightarrow> sC
                              | Returns sD \<Rightarrow>
                                  (case u of
                                     None \<Rightarrow> sD
                                   | Some usr \<Rightarrow>
                                       broadcastPresenceUpdate uid
                                         (Some (or_else (username usr) ''Unknown'')) False sD)))
                      else sA)
        in s1\<lparr>negotiationRooms := cleanup_rooms ws (negotiationRooms s1)\<rparr>)"

subsection \<open>The server as a transition system\<close>

text \<open>What reaches the server: an upgrade request on \<^verbatim>\<open>/ws\<close> with the token of the URL
  (\<open>None\<close> when the query has none), which becomes a \<^verbatim>\<open>connection\<close> event when
  \<^verbatim>\<open>verifyClient\<close> lets it pass, a text frame of a socket (\<open>None\<close> when \<^verbatim>\<open>JSON.parse\<close> throws), and
  the \<^verbatim>\<open>close\<close> and \<^verbatim>\<open>error\<close> events of a socket. Each input comes with the faults of
  the storage calls its handler makes.\<close>

datatype input =
    Connection "string option"
  | Message conn "json option"
  | Close conn
  | SocketError conn

text \<open>The option \<^verbatim>\<open>verifyClient\<close> of the \<^verbatim>\<open>WebSocketServer\<close>:
  \<^verbatim>\<open>return !!token\<close>. The library \<^verbatim>\<open>ws\<close> calls it on the upgrade request, before any
  socket object exists; when it returns false the library answers the request with
  HTTP 401 and emits no \<^verbatim>\<open>connection\<close> event.\<close>

definition verifyClient :: "string option \<Rightarrow> bool" where
  "verifyClient token = (\<not> falsy token)"

definition new_socket :: "state \<Rightarrow> state" where
  "new_socket s =
     s\<lparr>sockets := (sockets s)
          (next_conn s := \<lparr>userId = None, isAuthenticated = False, readyState = OPEN,
                           listening = False\<rparr>),
       next_conn := Suc (next_conn s)\<rparr>"

definition on_message :: "faults \<Rightarrow> conn \<Rightarrow> json option \<Rightarrow> state \<Rightarrow> state" where
  "on_message fl ws data s =
     (case data of
        None \<Rightarrow> ws_send ws (ErrorFrame ''Invalid message format'') s
      | Some message \<Rightarrow> handleWebSocketMessage fl ws message s)"

fun step :: "(string \<Rightarrow> decoded option) \<Rightarrow> faults \<times> input \<Rightarrow> state \<Rightarrow> state" where
  "step jwt_verify (fl, Connection token) s =
     (if verifyClient token
      then on_connection jwt_verify fl (next_conn s) token (new_socket s)
      else s\<lparr>trace := trace s @ [UpgradeRefused 401]\<rparr>)"
| "step jwt_verify (fl, Message ws data) s =
     (if listening (sockets s ws) then on_message fl ws data s else s)"
| "step jwt_verify (fl, Close ws) s =
     (let s1 = s\<lparr>sockets := (sockets s)(ws := (sockets s ws)\<lparr>readyState := CLOSED\<rparr>)\<rparr>
      in if listening (sockets s ws) then cleanupWebSocket fl ws s1 else s1)"
| "step jwt_verify (fl, SocketError ws) s =
     (if listening (sockets s ws) then cleanupWebSocket fl ws s else s)"

definition run :: "(string \<Rightarrow> decoded option) \<Rightarrow> (faults \<times> input) list \<Rightarrow> state \<Rightarrow> state" where
  "run jwt_verify ins s = foldl (\<lambda>s' i. step jwt_verify i s') s ins"

text \<open>The server at start: both maps empty, no socket yet; the tables are any.\<close>

definition init ::
  "(string \<rightharpoonup> negotiation) \<Rightarrow> (string \<rightharpoonup> user) \<Rightarrow> message_row list \<Rightarrow> state" where
  "init ns us ms =
     \<lparr>sockets = (\<lambda>_. \<lparr>userId = None, isAuthenticated = False, readyState = CLOSED, listening = False\<rparr>),
      next_conn = 0, userSockets = [], negotiationRooms = [],
      negotiations = ns, users = us, messages = ms, trace = []\<rparr>"

section \<open>The client: class NegotiationWebSocket\<close>

text \<open>
  The fields of the class that the reconnection logic reads or writes. The browser's
  \<^verbatim>\<open>WebSocket\<close> object is known by a handle; \<open>ws_sent\<close> lists what was handed to
  \<^verbatim>\<open>ws.send\<close>, with the socket it was handed to. A pending \<^verbatim>\<open>setTimeout\<close> is kept as its
  delay in milliseconds. The listeners (\<^verbatim>\<open>connectionHandlers\<close>, \<^verbatim>\<open>messageHandlers\<close>) are
  left out.
\<close>

datatype conn_status = disconnected | connecting | connected | reconnecting | error

record ConnectionState =
  cs_status :: conn_status
  cs_error :: "string option"
  retryCount :: nat

record client =
  c_ws :: "nat option"
  ws_sent :: "(nat \<times> WSMessage) list"
  c_token :: "string option"
  tokenExpiresAt :: int
  reconnectTimeout :: "nat option"
  tokenRefreshTimeout :: "int option"
  connectionState :: ConnectionState
  currentNegotiationRooms :: "string list"
  isUserDisconnected :: bool

text \<open>\<^verbatim>\<open>updateConnectionState\<close> merges a partial state: the error text stays when the
  partial state has none.\<close>

definition updateConnectionState ::
  "conn_status \<Rightarrow> string option \<Rightarrow> nat \<Rightarrow> client \<Rightarrow> client" where
  "updateConnectionState st err rc c =
     c\<lparr>connectionState :=
         \<lparr>cs_status = st,
          cs_error = (case err of None \<Rightarrow> cs_error (connectionState c) | Some e \<Rightarrow> Some e),
          retryCount = rc\<rparr>\<rparr>"

definition isConnected :: "client \<Rightarrow> bool" where
  "isConnected c = (cs_status (connectionState c) = connected)"

definition isConnecting :: "client \<Rightarrow> bool" where
  "isConnecting c = (cs_status (connectionState c) = connecting)"

definition clearReconnectTimeout :: "client \<Rightarrow> client" where
  "clearReconnectTimeout c = c\<lparr>reconnectTimeout := None\<rparr>"

definition clearTokenRefreshTimeout :: "client \<Rightarrow> client" where
  "clearTokenRefreshTimeout c = c\<lparr>tokenRefreshTimeout := None\<rparr>"

text \<open>\<^verbatim>\<open>send\<close>: nothing is sent unless connected; a frame the schema refuses is dropped.\<close>

definition send :: "json \<Rightarrow> client \<Rightarrow> client" where
  "send message c =
     (case c_ws c of
        None \<Rightarrow> c
      | Some sock \<Rightarrow>
          if \<not> isConnected c then c
          else case wsMessageSchema_parse message of
                 None \<Rightarrow> c
               | Some validatedMessage \<Rightarrow> c\<lparr>ws_sent := ws_sent c @ [(sock, validatedMessage)]\<rparr>)"

definition join_frame :: "string \<Rightarrow> json" where
  "join_frame negotiationId =
     JObj [(''type'', JStr ''join_negotiation''), (''negotiationId'', JStr negotiationId)]"

definition leave_frame :: "string \<Rightarrow> json" where
  "leave_frame negotiationId =
     JObj [(''type'', JStr ''leave_negotiation''), (''negotiationId'', JStr negotiationId)]"

definition joinNegotiation :: "string \<Rightarrow> client \<Rightarrow> client" where
  "joinNegotiation negotiationId c =
     send (join_frame negotiationId)
       (c\<lparr>currentNegotiationRooms := set_add negotiationId (currentNegotiationRooms c)\<rparr>)"

definition leaveNegotiation :: "string \<Rightarrow> client \<Rightarrow> client" where
  "leaveNegotiation negotiationId c =
     send (leave_frame negotiationId)
       (c\<lparr>currentNegotiationRooms := set_delete negotiationId (currentNegotiationRooms c)\<rparr>)"

definition disconnect :: "client \<Rightarrow> client" where
  "disconnect c =
     updateConnectionState disconnected None 0
       ((clearTokenRefreshTimeout (clearReconnectTimeout (c\<lparr>isUserDisconnected := True\<rparr>)))
          \<lparr>c_ws := None\<rparr>)"

text \<open>\<^verbatim>\<open>Math.min(Math.pow(2, retryCount) * 1000, 30000)\<close>\<close>

definition backoff_delay :: "nat \<Rightarrow> nat" where
  "backoff_delay n = min (2 ^ n * 1000) 30000"

definition scheduleReconnect :: "client \<Rightarrow> client" where
  "scheduleReconnect c =
     (if isUserDisconnected c then c
      else
        let c1 = clearReconnectTimeout c;
            n = retryCount (connectionState c1) + 1;
            delay = backoff_delay n
        in (updateConnectionState reconnecting None n c1)\<lparr>reconnectTimeout := Some delay\<rparr>)"

text \<open>The listeners \<^verbatim>\<open>establishConnection\<close> puts on the socket.\<close>

definition ws_onopen :: "client \<Rightarrow> client" where
  "ws_onopen c =
     (let c1 = updateConnectionState connected None 0 c
      in foldl (\<lambda>c' negotiationId. send (join_frame negotiationId) c') c1
           (currentNegotiationRooms c1))"

definition ws_onclose :: "client \<Rightarrow> client" where
  "ws_onclose c =
     (let c1 = c\<lparr>c_ws := None\<rparr>
      in if \<not> isUserDisconnected c1 then scheduleReconnect c1
         else updateConnectionState disconnected None 0 c1)"

definition ws_onerror :: "client \<Rightarrow> client" where
  "ws_onerror c =
     updateConnectionState error (Some ''Connection error'') (retryCount (connectionState c)) c"

text \<open>\<^verbatim>\<open>ensureValidToken\<close>: \<open>now\<close> is \<^verbatim>\<open>Date.now()\<close>, \<open>api\<close> what the token endpoint
  answers: \<open>Inr\<close> the token and \<^verbatim>\<open>expiresIn\<close>, \<open>Inl\<close> the text of the error when the
  request throws. The result is the text of the error rethrown (if any) and the client
  state the call leaves.\<close>

definition ensureValidToken ::
  "int \<Rightarrow> string + (string \<times> int) \<Rightarrow> client \<Rightarrow> string option \<times> client" where
  "ensureValidToken now api c =
     (if \<not> falsy (c_token c) \<and> tokenExpiresAt c > now + 2 * 60 * 1000 then (None, c)
      else
        case api of
          Inl msg \<Rightarrow> (Some msg, c\<lparr>c_token := None, tokenExpiresAt := 0\<rparr>)
        | Inr (tok, expiresIn) \<Rightarrow>
            let c1 = clearTokenRefreshTimeout (c\<lparr>c_token := Some tok, tokenExpiresAt := now + expiresIn\<rparr>);
                refreshIn = expiresIn - 2 * 60 * 1000
            in (None, if refreshIn > 0 then c1\<lparr>tokenRefreshTimeout := Some refreshIn\<rparr> else c1))"

text \<open>\<^verbatim>\<open>establishConnection\<close>; \<open>sock\<close> is the handle of the socket object it creates.\<close>

definition establishConnection ::
  "int \<Rightarrow> string + (string \<times> int) \<Rightarrow> nat \<Rightarrow> client \<Rightarrow> client" where
  "establishConnection now api sock c =
     (let c1 = updateConnectionState connecting None (retryCount (connectionState c)) c;
          failed = (\<lambda>msg c'.
            let c2 = updateConnectionState error (Some msg) (retryCount (connectionState c')) c'
            in if \<not> isUserDisconnected c2 then scheduleReconnect c2 else c2)
      in case ensureValidToken now api c1 of
           (Some msg, c2) \<Rightarrow> failed msg c2
         | (None, c2) \<Rightarrow>
             if falsy (c_token c2) then failed ''Failed to obtain WebSocket token'' c2
             else c2\<lparr>c_ws := Some sock\<rparr>)"

text \<open>The callback of the reconnect timer.\<close>

definition reconnect_timer_fires ::
  "int \<Rightarrow> string + (string \<times> int) \<Rightarrow> nat \<Rightarrow> client \<Rightarrow> client" where
  "reconnect_timer_fires now api sock c =
     (if \<not> isUserDisconnected c then establishConnection now api sock c else c)"

section \<open>Notions used in the statements\<close>

text \<open>The sockets of a set that a broadcast loop writes to: those whose \<^verbatim>\<open>readyState\<close> is
  \<^verbatim>\<open>OPEN\<close>, in the order of the set.\<close>

definition open_of :: "state \<Rightarrow> conn list \<Rightarrow> conn list" where
  "open_of s xs = filter (\<lambda>c. readyState (sockets s c) = OPEN) xs"

text \<open>The sockets \<^verbatim>\<open>broadcastPresenceUpdate\<close> writes to: the open sockets of every
  connected user but \<open>uid\<close>.\<close>

definition presence_targets :: "string \<Rightarrow> state \<Rightarrow> conn list" where
  "presence_targets uid s =
     concat (map (\<lambda>(u, xs). if u \<noteq> uid then open_of s xs else []) (userSockets s))"

text \<open>The members of a room; no member when the room does not exist.\<close>

definition room_of :: "state \<Rightarrow> string \<Rightarrow> conn list" where
  "room_of s negotiationId =
     (case map_of (negotiationRooms s) negotiationId of None \<Rightarrow> [] | Some room \<Rightarrow> room)"

text \<open>The sockets \<^verbatim>\<open>broadcastNegotiationStatusUpdate\<close> writes to: the open sockets of the
  buyer, then those of the seller.\<close>

definition status_targets :: "state \<Rightarrow> negotiation \<Rightarrow> conn list" where
  "status_targets s n =
     concat (map (\<lambda>p. case map_of (userSockets s) p of None \<Rightarrow> [] | Some xs \<Rightarrow> open_of s xs)
               [buyerId n, sellerId n])"

text \<open>The statuses \<^verbatim>\<open>validateNegotiationAccess\<close> refuses.\<close>

definition terminal :: "negotiation \<Rightarrow> bool" where
  "terminal n = (status n = Some ''completed'' \<or> status n = Some ''cancelled'')"

text \<open>What a handler added to the trace, from the state before and the state after.\<close>

definition emitted :: "state \<Rightarrow> state \<Rightarrow> effect list" where
  "emitted s s' = drop (length (trace s)) (trace s')"

text \<open>The negotiation a frame is about, for the six kinds of frame whose handlers start
  with \<^verbatim>\<open>validateNegotiationAccess\<close>: chat, offer, counter, accept, reject, status.\<close>

fun mutating_target :: "WSMessage \<Rightarrow> string option" where
  "mutating_target (NegotiationMessage n _) = Some n"
| "mutating_target (NegotiationOffer n _ _) = Some n"
| "mutating_target (NegotiationCounter n _ _) = Some n"
| "mutating_target (NegotiationAccept n) = Some n"
| "mutating_target (NegotiationReject n _) = Some n"
| "mutating_target (NegotiationStatus n _) = Some n"
| "mutating_target _ = None"

text \<open>The guard of \<^verbatim>\<open>handleWebSocketMessage\<close> lets the socket pass.\<close>

definition authenticated :: "state \<Rightarrow> conn \<Rightarrow> bool" where
  "authenticated s ws = (isAuthenticated (sockets s ws) \<and> \<not> falsy (userId (sockets s ws)))"

text \<open>The sockets a trace sends \<^verbatim>\<open>connection_confirmed\<close> to.\<close>

fun confirmation_of :: "effect \<Rightarrow> conn option" where
  "confirmation_of (WsSend c (ConnectionConfirmed _ _)) = Some c"
| "confirmation_of _ = None"

definition confs :: "effect list \<Rightarrow> conn list" where
  "confs t = List.map_filter confirmation_of t"

text \<open>The sockets held by the sets of a map.\<close>

definition conns_of :: "(string \<times> conn list) list \<Rightarrow> conn set" where
  "conns_of m = (\<Union>p\<in>set m. set (snd p))"

text \<open>Two states with the same sockets, the same registry and the same confirmations.\<close>

definition same_registry :: "state \<Rightarrow> state \<Rightarrow> bool" where
  "same_registry s s' =
     (sockets s' = sockets s \<and> next_conn s' = next_conn s \<and> userSockets s' = userSockets s
      \<and> negotiationRooms s' = negotiationRooms s \<and> confs (trace s') = confs (trace s))"

text \<open>The invariant of the registry: a socket in a set of \<open>userSockets\<close>, in a room, or
  one that was sent \<^verbatim>\<open>connection_confirmed\<close>, is authenticated; an authenticated socket
  is one the server has seen connect.\<close>

definition registry_inv :: "state \<Rightarrow> bool" where
  "registry_inv s =
     ((\<forall>c \<in> conns_of (userSockets s) \<union> conns_of (negotiationRooms s) \<union> set (confs (trace s)).
          isAuthenticated (sockets s c))
      \<and> (\<forall>c. isAuthenticated (sockets s c) \<longrightarrow> c < next_conn s))"

definition auth_same :: "state \<Rightarrow> state \<Rightarrow> bool" where
  "auth_same s s' =
     (next_conn s' = next_conn s
      \<and> (\<forall>c. isAuthenticated (sockets s' c) = isAuthenticated (sockets s c)))"

text \<open>The three ways a handshake fails: no token (\<^verbatim>\<open>verifyClient\<close> refuses the upgrade,
  and the connection handler would close the socket), a token \<^verbatim>\<open>jwt.verify\<close> throws on,
  a payload without \<^verbatim>\<open>userId\<close>.\<close>

definition handshake_fails :: "(string \<Rightarrow> decoded option) \<Rightarrow> string option \<Rightarrow> bool" where
  "handshake_fails jwt_verify token =
     (falsy token \<or>
      (case jwt_verify (or_else token []) of None \<Rightarrow> True | Some dec \<Rightarrow> falsy (d_userId dec)))"

text \<open>What \<^verbatim>\<open>cleanupWebSocket\<close> adds to the trace when the socket was the last of its user:
  the two storage writes, then the offline frame to the others, as far as no storage call
  throws and the user's row exists.\<close>

definition offline_effects :: "faults \<Rightarrow> string \<Rightarrow> state \<Rightarrow> effect list" where
  "offline_effects fl uid s =
     (if fl UpdateUserOnlineStatus 0 then []
      else Storage (WriteOnline uid False) #
        (if fl SetUserLastSeen 0 then []
         else Storage (WriteLastSeen uid) #
           (case users s uid of
              None \<Rightarrow> []
            | Some u \<Rightarrow>
                map (\<lambda>c. WsSend c (PresenceUpdate uid (Some (or_else (username u) ''Unknown'')) False))
                  (presence_targets uid s))))"

text \<open>The row \<^verbatim>\<open>createMessage\<close> inserts in state \<open>s\<close>.\<close>

definition new_row ::
  "state \<Rightarrow> string \<Rightarrow> string \<Rightarrow> message_type \<Rightarrow> string \<Rightarrow> int option \<Rightarrow> message_row" where
  "new_row s negotiationId uid messageType content amount =
     \<lparr>m_id = length (messages s), m_negotiationId = negotiationId, m_senderId = uid,
      m_messageType = messageType, m_content = content, m_amount = amount\<rparr>"



text \<open>A broadcast \<^verbatim>\<open>message\<close> object agrees with a row of the log.\<close>

definition row_matches :: "string \<Rightarrow> update_msg \<Rightarrow> message_row \<Rightarrow> bool" where
  "row_matches negotiationId m row =
     (m_negotiationId row = negotiationId \<and> m_id row = u_id m \<and> Some (m_senderId row) = u_senderId m
      \<and> m_messageType row = u_messageType m \<and> m_content row = u_content m
      \<and> m_amount row = u_amount m)"

text \<open>In a list of effects, every \<^verbatim>\<open>negotiation_update\<close> sent comes after the insert of a
  row it agrees with, and every \<^verbatim>\<open>negotiation_status_update\<close> sent comes after an insert
  (\<open>seen\<close> collects the rows inserted so far).\<close>

fun persisted_first :: "message_row list \<Rightarrow> effect list \<Rightarrow> bool" where
  "persisted_first seen [] = True"
| "persisted_first seen (Storage (InsertMessage row) # es) = persisted_first (row # seen) es"
| "persisted_first seen (WsSend c (NegotiationUpdate negotiationId m) # es) =
     ((\<exists>row \<in> set seen. row_matches negotiationId m row) \<and> persisted_first seen es)"
| "persisted_first seen (WsSend c (NegotiationStatusUpdate negotiationId st changedBy name context) # es) =
     (seen \<noteq> [] \<and> persisted_first seen es)"
| "persisted_first seen (e # es) = persisted_first seen es"

text \<open>The effects on clients (frames sent, sockets closed, upgrades refused): all but the
  storage writes.\<close>

definition sends_of :: "effect list \<Rightarrow> effect list" where
  "sends_of t = filter (\<lambda>e. case e of Storage w \<Rightarrow> False | _ \<Rightarrow> True) t"

text \<open>No set of a map holds a socket twice.\<close>

definition sets_distinct :: "(string \<times> conn list) list \<Rightarrow> bool" where
  "sets_distinct m = (\<forall>p \<in> set m. distinct (snd p))"

text \<open>\<^verbatim>\<open>ensureValidToken\<close> leaves the client with a token: the cached one is good for more
  than two minutes, or the token endpoint answers with one.\<close>

definition token_obtained :: "int \<Rightarrow> string + (string \<times> int) \<Rightarrow> client \<Rightarrow> bool" where
  "token_obtained now api c =
     ((\<not> falsy (c_token c) \<and> tokenExpiresAt c > now + 2 * 60 * 1000)
      \<or> (case api of Inl msg \<Rightarrow> False | Inr (tok, expiresIn) \<Rightarrow> tok \<noteq> []))"

subsection \<open>Example data\<close>

definition jwt_ex :: "string \<Rightarrow> decoded option" where
  "jwt_ex t =
     (if t = ''t1'' then Some \<lparr>d_userId = Some ''U1'', d_username = Some ''alice''\<rparr>
      else if t = ''t2'' then Some \<lparr>d_userId = Some ''U2'', d_username = Some ''bob''\<rparr>
      else if t = ''t3'' then Some \<lparr>d_userId = Some ''U3'', d_username = Some ''carol''\<rparr>
      else None)"

definition neg_ex :: "string \<Rightarrow> negotiation" where
  "neg_ex st = \<lparr>productId = ''P1'', buyerId = ''U1'', sellerId = ''U2'', status = Some st,
               currentOffer = Some 90\<rparr>"

definition users_ex :: "string \<rightharpoonup> user" where
  "users_ex = [''U1'' \<mapsto> \<lparr>username = Some ''alice'', isOnline = True\<rparr>,
              ''U2'' \<mapsto> \<lparr>username = Some ''bob'', isOnline = True\<rparr>]"

definition sock_ex :: "string \<Rightarrow> socket" where
  "sock_ex uid = \<lparr>userId = Some uid, isAuthenticated = True, readyState = OPEN, listening = True\<rparr>"

text \<open>Buyer \<open>U1\<close> on socket 0 and seller \<open>U2\<close> on socket 1, both in the room of \<open>N1\<close>,
  whose status is \<open>st\<close>.\<close>

definition state_ex :: "string \<Rightarrow> state" where
  "state_ex st =
     \<lparr>sockets = (\<lambda>c. if c = 0 then sock_ex ''U1'' else if c = 1 then sock_ex ''U2''
                     else \<lparr>userId = None, isAuthenticated = False, readyState = CLOSED,
                           listening = False\<rparr>),
      next_conn = 2,
      userSockets = [(''U1'', [0]), (''U2'', [1])],
      negotiationRooms = [(''N1'', [0, 1])],
      negotiations = [''N1'' \<mapsto> neg_ex st],
      users = users_ex, messages = [], trace = []\<rparr>"

definition no_faults :: faults where
  "no_faults = (\<lambda>op k. False)"

definition offer_frame :: "string \<Rightarrow> int \<Rightarrow> json" where
  "offer_frame negotiationId amount =
     JObj [(''type'', JStr ''negotiation_offer''), (''negotiationId'', JStr negotiationId),
           (''amount'', JNum amount)]"

definition chat_frame :: "string \<Rightarrow> string \<Rightarrow> json" where
  "chat_frame negotiationId content =
     JObj [(''type'', JStr ''negotiation_message''), (''negotiationId'', JStr negotiationId),
           (''content'', JStr content)]"

definition status_frame :: "string \<Rightarrow> string \<Rightarrow> json" where
  "status_frame negotiationId st =
     JObj [(''type'', JStr ''negotiation_status''), (''negotiationId'', JStr negotiationId),
           (''status'', JStr st)]"

text \<open>Faults: every call of \<^verbatim>\<open>createMessage\<close> throws, no other call does.\<close>

definition create_fails :: faults where
  "create_fails = (\<lambda>op k. op = CreateMessage)"

text \<open>A client that is waiting to reconnect for the third time, with two rooms joined.\<close>

definition client_ex :: client where
  "client_ex =
     \<lparr>c_ws = Some 7, ws_sent = [], c_token = Some ''tok'', tokenExpiresAt = 600000,
      reconnectTimeout = None, tokenRefreshTimeout = Some 480000,
      connectionState = \<lparr>cs_status = reconnecting, cs_error = None, retryCount = 3\<rparr>,
      currentNegotiationRooms = [''N1'', ''N2''], isUserDisconnected = False\<rparr>"

section \<open>Proofs\<close>

subsection \<open>Closed forms of the broadcast loops\<close>

lemma send_each_open_eq:
  "send_each_open xs f s = s\<lparr>trace := trace s @ map (\<lambda>c. WsSend c f) (open_of s xs)\<rparr>"
proof (induction xs arbitrary: s)
  case Nil
  show ?case by (simp add: send_each_open_def open_of_def)
next
  case (Cons x xs)
  have unroll: "send_each_open (x # xs) f s =
      send_each_open xs f (if readyState (sockets s x) = OPEN then ws_send x f s else s)"
    by (simp add: send_each_open_def)
  show ?case
    unfolding unroll Cons.IH
    by (simp add: ws_send_def open_of_def)
qed

lemma open_of_trace [simp]: "open_of (s\<lparr>trace := t\<rparr>) = open_of s"
  by (simp add: open_of_def fun_eq_iff)

lemma room_of_trace [simp]: "room_of (s\<lparr>trace := t\<rparr>) = room_of s"
  by (simp add: room_of_def fun_eq_iff)

lemma open_of_other [simp]:
  "open_of (s\<lparr>negotiations := ns\<rparr>) = open_of s"
  "open_of (s\<lparr>messages := ms\<rparr>) = open_of s"
  "open_of (s\<lparr>users := us\<rparr>) = open_of s"
  "open_of (s\<lparr>userSockets := m\<rparr>) = open_of s"
  "open_of (s\<lparr>negotiationRooms := r\<rparr>) = open_of s"
  by (simp_all add: open_of_def fun_eq_iff)

lemma room_of_other [simp]:
  "room_of (s\<lparr>negotiations := ns\<rparr>) = room_of s"
  "room_of (s\<lparr>messages := ms\<rparr>) = room_of s"
  "room_of (s\<lparr>users := us\<rparr>) = room_of s"
  "room_of (s\<lparr>userSockets := m\<rparr>) = room_of s"
  by (simp_all add: room_of_def fun_eq_iff)

lemma presence_targets_other [simp]:
  "presence_targets uid (s\<lparr>trace := t\<rparr>) = presence_targets uid s"
  "presence_targets uid (s\<lparr>negotiations := ns\<rparr>) = presence_targets uid s"
  "presence_targets uid (s\<lparr>messages := ms\<rparr>) = presence_targets uid s"
  "presence_targets uid (s\<lparr>users := us\<rparr>) = presence_targets uid s"
  "presence_targets uid (s\<lparr>negotiationRooms := r\<rparr>) = presence_targets uid s"
  by (simp_all add: presence_targets_def cong: if_cong)

lemma status_targets_other [simp]:
  "status_targets (s\<lparr>trace := t\<rparr>) = status_targets s"
  "status_targets (s\<lparr>negotiations := ns\<rparr>) = status_targets s"
  "status_targets (s\<lparr>messages := ms\<rparr>) = status_targets s"
  "status_targets (s\<lparr>users := us\<rparr>) = status_targets s"
  "status_targets (s\<lparr>negotiationRooms := r\<rparr>) = status_targets s"
  by (simp_all add: status_targets_def fun_eq_iff cong: option.case_cong)

lemma open_of_send_each_open [simp]: "open_of (send_each_open xs f s) = open_of s"
  by (rule ext) (simp add: send_each_open_eq)

lemma presence_fold_eq:
  "foldl (\<lambda>s' (u, xs). if u \<noteq> uid then send_each_open xs f s' else s') s m =
   s\<lparr>trace := trace s @ map (\<lambda>c. WsSend c f)
        (concat (map (\<lambda>(u, xs). if u \<noteq> uid then open_of s xs else []) m))\<rparr>"
proof (induction m arbitrary: s)
  case Nil
  show ?case by simp
next
  case (Cons p m)
  obtain u xs where p: "p = (u, xs)" by (cases p)
  show ?case
  proof (cases "u = uid")
    case True
    then show ?thesis by (simp add: p Cons.IH)
  next
    case False
    then show ?thesis by (simp add: p Cons.IH) (simp add: send_each_open_eq cong: if_cong)
  qed
qed

lemma broadcastPresenceUpdate_eq:
  "broadcastPresenceUpdate uid un b s =
   s\<lparr>trace := trace s @ map (\<lambda>c. WsSend c (PresenceUpdate uid un b)) (presence_targets uid s)\<rparr>"
  unfolding broadcastPresenceUpdate_def presence_targets_def
  by (rule presence_fold_eq)

lemma broadcastToNegotiation_eq:
  "broadcastToNegotiation n f s =
   s\<lparr>trace := trace s @ map (\<lambda>c. WsSend c f) (open_of s (room_of s n))\<rparr>"
  by (simp add: broadcastToNegotiation_def send_each_open_eq room_of_def open_of_def
      split: option.splits)

lemma broadcastNegotiationUpdate_eq:
  "broadcastNegotiationUpdate n m s =
   s\<lparr>trace := trace s @ map (\<lambda>c. WsSend c (NegotiationUpdate n m)) (open_of s (room_of s n))\<rparr>"
  by (simp add: broadcastNegotiationUpdate_def broadcastToNegotiation_eq)

lemma broadcastNegotiationStatusUpdate_eq:
  "broadcastNegotiationStatusUpdate fl nid st by ctx s =
   (case getNegotiation fl 1 nid s of
      Throws \<Rightarrow> s
    | Returns None \<Rightarrow> s
    | Returns (Some n) \<Rightarrow>
        (case getUser fl 1 by s of
           Throws \<Rightarrow> s
         | Returns u \<Rightarrow>
             s\<lparr>trace := trace s @
                  map (\<lambda>c. WsSend c (NegotiationStatusUpdate nid st by (sender_name u) ctx))
                    (status_targets s n)\<rparr>))"
  by (simp add: broadcastNegotiationStatusUpdate_def status_targets_def send_each_open_eq
      split: outcome.splits option.splits)

named_theorems storage_defs

named_theorems handler_defs

declare getNegotiation_def [storage_defs] updateNegotiation_def [storage_defs]
  updateNegotiationStatus_def [storage_defs] createMessage_def [storage_defs]
  getUser_def [storage_defs] updateUserOnlineStatus_def [storage_defs]
  setUserLastSeen_def [storage_defs] getUsersOnlineStatus_def [storage_defs]

declare handleNegotiationMessage_def [handler_defs] handleNegotiationOffer_def [handler_defs]
  handleNegotiationCounter_def [handler_defs] handleNegotiationAccept_def [handler_defs]
  handleNegotiationReject_def [handler_defs] handleNegotiationStatus_def [handler_defs]

lemma confs_simps [simp]:
  "confs [] = []"
  "confs (t @ t') = confs t @ confs t'"
  "confs (e # t) = (case confirmation_of e of None \<Rightarrow> confs t | Some c \<Rightarrow> c # confs t)"
  by (simp_all add: confs_def List.map_filter_def split: option.splits)

lemma confs_sends [simp]:
  "confs (map (\<lambda>c. WsSend c f) xs) = (case f of ConnectionConfirmed u n \<Rightarrow> xs | _ \<Rightarrow> [])"
  by (induction xs) (simp_all split: frame.splits)

lemma same_registry_refl [simp]: "same_registry s s"
  by (simp add: same_registry_def)

lemma same_registry_trans: "same_registry s s1 \<Longrightarrow> same_registry s1 s2 \<Longrightarrow> same_registry s s2"
  by (simp add: same_registry_def)

declare handlePresenceUpdate_def [handler_defs] handlePresenceRequest_def [handler_defs]

lemma dispatch_same_registry:
  assumes "\<And>n. vm \<noteq> JoinNegotiation n" and "\<And>n. vm \<noteq> LeaveNegotiation n"
  shows "same_registry s (dispatch fl ws vm s)"
  using assms
  by (cases vm) (auto simp: handler_defs validateNegotiationAccess_def name_and_broadcast_def
      storage_defs broadcastNegotiationUpdate_eq broadcastNegotiationStatusUpdate_eq
      broadcastPresenceUpdate_eq Let_def same_registry_def ws_send_def
      split: outcome.splits access.splits option.splits prod.splits if_splits)

subsection \<open>The registry operations on the sockets they hold\<close>

lemma conns_of_Nil [simp]: "conns_of [] = {}"
  by (simp add: conns_of_def)

lemma conns_of_Cons [simp]: "conns_of (p # m) = set (snd p) \<union> conns_of m"
  by (simp add: conns_of_def)

lemma conns_of_update: "conns_of (AList.update k xs m) \<subseteq> set xs \<union> conns_of m"
  by (induction m) auto

lemma conns_of_delete: "conns_of (AList.delete k m) \<subseteq> conns_of m"
  by (induction m) auto

lemma conns_of_map_of: "map_of m k = Some xs \<Longrightarrow> set xs \<subseteq> conns_of m"
  by (induction m) (auto split: if_splits)

lemma set_set_add [simp]: "set (set_add x xs) = insert x (set xs)"
  by (auto simp: set_add_def)

lemma set_set_delete [simp]: "set (set_delete x xs) = set xs - {x}"
  by (auto simp: set_delete_def)

lemma registry_add_eq:
  "registry_add k ws m =
     (case map_of m k of
        None \<Rightarrow> AList.update k [ws] (AList.update k [] m)
      | Some xs \<Rightarrow> AList.update k (set_add ws xs) m)"
  by (simp add: registry_add_def Let_def update_conv' set_add_def split: option.splits)

lemma conns_of_registry_add: "conns_of (registry_add k ws m) \<subseteq> insert ws (conns_of m)"
proof (cases "map_of m k")
  case None
  have "conns_of (AList.update k [ws] (AList.update k [] m)) \<subseteq> set [ws] \<union> conns_of (AList.update k [] m)"
    by (rule conns_of_update)
  moreover have "conns_of (AList.update k [] m) \<subseteq> set [] \<union> conns_of m"
    by (rule conns_of_update)
  ultimately have "conns_of (AList.update k [ws] (AList.update k [] m)) \<subseteq> insert ws (conns_of m)"
    by auto
  then show ?thesis using None by (simp add: registry_add_eq)
next
  case (Some xs)
  have "set xs \<subseteq> conns_of m" using Some by (rule conns_of_map_of)
  moreover have "conns_of (AList.update k (set_add ws xs) m) \<subseteq> set (set_add ws xs) \<union> conns_of m"
    by (rule conns_of_update)
  ultimately have "conns_of (AList.update k (set_add ws xs) m) \<subseteq> insert ws (conns_of m)"
    by auto
  then show ?thesis using Some by (simp add: registry_add_eq)
qed

lemma conns_of_registry_remove: "conns_of (registry_remove k ws m) \<subseteq> conns_of m"
proof (cases "map_of m k")
  case None
  then show ?thesis by (simp add: registry_remove_def)
next
  case (Some room)
  have "set room \<subseteq> conns_of m" using Some by (rule conns_of_map_of)
  then have "conns_of (AList.update k (set_delete ws room) m) \<subseteq> conns_of m"
    using conns_of_update [of k "set_delete ws room" m] by auto
  then show ?thesis
    using Some conns_of_delete [of k m] by (simp add: registry_remove_def)
qed

lemma conns_of_cleanup_rooms: "conns_of (cleanup_rooms ws m) \<subseteq> conns_of m"
  by (induction m) (auto simp: cleanup_rooms_def)

lemma not_in_cleanup_rooms: "ws \<notin> conns_of (cleanup_rooms ws m)"
  by (induction m) (auto simp: cleanup_rooms_def)

subsection \<open>What each handler leaves alone\<close>

lemma type_of_known: "type_of vm \<in> set known_types"
  by (cases vm) (simp_all add: known_types_def)

lemma handleWebSocketMessage_eq:
  "handleWebSocketMessage fl ws message s =
     (if \<not> authenticated s ws then ws_send ws (ErrorFrame ''Not authenticated'') s
      else case wsMessageSchema_parse message of
             None \<Rightarrow> ws_send ws (ErrorFrame ''Invalid message format'') s
           | Some vm \<Rightarrow> dispatch fl ws vm s)"
  by (simp add: handleWebSocketMessage_def authenticated_def type_of_known split: option.splits)

lemma same_registry_error [simp]: "same_registry s (ws_send ws (ErrorFrame e) s)"
  by (simp add: same_registry_def ws_send_def)

lemma same_registry_inv: "same_registry s s' \<Longrightarrow> registry_inv s \<Longrightarrow> registry_inv s'"
  by (simp add: same_registry_def registry_inv_def)

lemma same_registry_auth_same: "same_registry s s' \<Longrightarrow> auth_same s s'"
  by (simp add: same_registry_def auth_same_def)

lemma join_inv:
  assumes "registry_inv s" and "isAuthenticated (sockets s ws)"
  shows "registry_inv (handleJoinNegotiation fl ws nid s)"
proof -
  have "conns_of (registry_add nid ws (negotiationRooms s)) \<subseteq> insert ws (conns_of (negotiationRooms s))"
    by (rule conns_of_registry_add)
  then have "registry_inv (ws_send ws (NegotiationJoined nid)
      (s\<lparr>negotiationRooms := registry_add nid ws (negotiationRooms s)\<rparr>))"
    using assms by (auto simp: registry_inv_def ws_send_def)
  moreover have "\<And>e. registry_inv (ws_send ws (ErrorFrame e) s)"
    using assms(1) by (rule same_registry_inv [OF same_registry_error])
  ultimately show ?thesis
    by (simp add: handleJoinNegotiation_def storage_defs split: outcome.splits option.splits)
qed

lemma join_auth_same: "auth_same s (handleJoinNegotiation fl ws nid s)"
  by (simp add: handleJoinNegotiation_def storage_defs auth_same_def ws_send_def
      split: outcome.splits option.splits)

lemma leave_inv:
  assumes "registry_inv s"
  shows "registry_inv (handleLeaveNegotiation ws nid s)"
proof -
  have "conns_of (registry_remove nid ws (negotiationRooms s)) \<subseteq> conns_of (negotiationRooms s)"
    by (rule conns_of_registry_remove)
  then show ?thesis
    using assms by (auto simp: handleLeaveNegotiation_def registry_inv_def ws_send_def)
qed

lemma leave_auth_same: "auth_same s (handleLeaveNegotiation ws nid s)"
  by (simp add: handleLeaveNegotiation_def auth_same_def ws_send_def)

lemma dispatch_inv:
  assumes "registry_inv s" and "isAuthenticated (sockets s ws)"
  shows "registry_inv (dispatch fl ws vm s)"
proof (cases "(\<exists>n. vm = JoinNegotiation n) \<or> (\<exists>n. vm = LeaveNegotiation n)")
  case True
  then show ?thesis using assms by (auto simp: join_inv leave_inv)
next
  case False
  then have "same_registry s (dispatch fl ws vm s)"
    by (intro dispatch_same_registry) auto
  then show ?thesis using assms(1) by (rule same_registry_inv)
qed

lemma dispatch_auth_same: "auth_same s (dispatch fl ws vm s)"
proof (cases "(\<exists>n. vm = JoinNegotiation n) \<or> (\<exists>n. vm = LeaveNegotiation n)")
  case True
  then show ?thesis by (auto simp: join_auth_same leave_auth_same)
next
  case False
  then have "same_registry s (dispatch fl ws vm s)"
    by (intro dispatch_same_registry) auto
  then show ?thesis by (rule same_registry_auth_same)
qed

lemma handleWebSocketMessage_inv:
  "registry_inv s \<Longrightarrow> registry_inv (handleWebSocketMessage fl ws message s)"
  by (auto simp: handleWebSocketMessage_eq authenticated_def dispatch_inv
      intro: same_registry_inv [OF same_registry_error] split: option.splits)

lemma handleWebSocketMessage_auth_same:
  "auth_same s (handleWebSocketMessage fl ws message s)"
  by (auto simp: handleWebSocketMessage_eq dispatch_auth_same
      intro: same_registry_auth_same [OF same_registry_error] split: option.splits)

subsection \<open>The connection handler\<close>

lemma on_connection_fails:
  assumes "handshake_fails jwt_verify token"
  shows "\<exists>reason. on_connection jwt_verify fl ws token s = ws_close ws 1008 reason s"
  using assms
  by (auto simp: handshake_fails_def on_connection_def split: option.splits)

lemma targets_update:
  "concat (map (\<lambda>(u, xs). if u \<noteq> uid then g xs else []) (AList.update uid v m)) =
   concat (map (\<lambda>(u, xs). if u \<noteq> uid then g xs else []) m)"
  by (induction m) auto

lemma targets_delete:
  "concat (map (\<lambda>(u, xs). if u \<noteq> uid then g xs else []) (AList.delete uid m)) =
   concat (map (\<lambda>(u, xs). if u \<noteq> uid then g xs else []) m)"
  by (induction m) auto

lemma targets_registry_add:
  "concat (map (\<lambda>(u, xs). if u \<noteq> uid then g xs else []) (registry_add uid ws m)) =
   concat (map (\<lambda>(u, xs). if u \<noteq> uid then g xs else []) m)"
  by (simp add: registry_add_eq targets_update split: option.splits)

lemma presence_targets_registered:
  assumes "\<And>c. readyState (sockets s' c) = readyState (sockets s c)"
    and "userSockets s' = registry_add uid ws (userSockets s)
         \<or> userSockets s' = AList.update uid v (userSockets s)
         \<or> userSockets s' = AList.delete uid (AList.update uid v (userSockets s))"
  shows "presence_targets uid s' = presence_targets uid s"
proof -
  have open_eq: "open_of s' = open_of s"
    using assms(1) by (intro ext) (simp add: open_of_def)
  have "concat (map (\<lambda>(u, xs). if u \<noteq> uid then open_of s xs else []) (userSockets s')) =
        concat (map (\<lambda>(u, xs). if u \<noteq> uid then open_of s xs else []) (userSockets s))"
    using assms(2) by (auto simp: targets_registry_add targets_update targets_delete)
  then show ?thesis
    unfolding presence_targets_def open_eq .
qed

text \<open>What a successful handshake does, in one update.\<close>

lemma on_connection_succeeds:
  assumes "jwt_verify t = Some dec" and "t \<noteq> []" and "d_userId dec = Some uid" and "uid \<noteq> []"
  shows "on_connection jwt_verify fl ws (Some t) s =
     s\<lparr>sockets := (sockets s)
          (ws := (sockets s ws)\<lparr>userId := Some uid, isAuthenticated := True, listening := True\<rparr>),
       userSockets := registry_add uid ws (userSockets s),
       users := (if fl UpdateUserOnlineStatus 0 then users s
                 else case users s uid of
                        None \<Rightarrow> users s
                      | Some u \<Rightarrow> (users s)(uid \<mapsto> u\<lparr>isOnline := True\<rparr>)),
       trace := trace s @
         (if fl UpdateUserOnlineStatus 0 then []
          else Storage (WriteOnline uid True) #
               map (\<lambda>c. WsSend c (PresenceUpdate uid (d_username dec) True)) (presence_targets uid s))
         @ [WsSend ws (ConnectionConfirmed (Some uid) (d_username dec))]\<rparr>"
proof -
  define s1 where
    "s1 = s\<lparr>sockets := (sockets s)(ws := (sockets s ws)\<lparr>userId := Some uid, isAuthenticated := True\<rparr>)\<rparr>"
  define s2 where "s2 = s1\<lparr>userSockets := registry_add uid ws (userSockets s1)\<rparr>"
  define s3 where
    "s3 = (case updateUserOnlineStatus fl 0 uid True s2 of
             Throws \<Rightarrow> s2
           | Returns (u, s') \<Rightarrow> broadcastPresenceUpdate uid (d_username dec) True s')"
  have pt: "presence_targets uid s2 = presence_targets uid s"
    by (rule presence_targets_registered [where ws = ws and v = "[]"])
      (simp_all add: s1_def s2_def)
  have us2: "users s2 = users s" "trace s2 = trace s"
    by (simp_all add: s1_def s2_def)
  have s3: "s3 =
      (if fl UpdateUserOnlineStatus 0 then s2
       else s2\<lparr>users := (case users s uid of
                            None \<Rightarrow> users s
                          | Some u \<Rightarrow> (users s)(uid \<mapsto> u\<lparr>isOnline := True\<rparr>)),
               trace := trace s @ Storage (WriteOnline uid True) #
                  map (\<lambda>c. WsSend c (PresenceUpdate uid (d_username dec) True))
                    (presence_targets uid s)\<rparr>)"
    by (simp add: s3_def storage_defs broadcastPresenceUpdate_eq pt us2 cong: option.case_cong)
  have main: "on_connection jwt_verify fl ws (Some t) s =
      (ws_send ws (ConnectionConfirmed (userId (sockets s3 ws)) (d_username dec)) s3)
        \<lparr>sockets := (sockets s3)(ws := (sockets s3 ws)\<lparr>listening := True\<rparr>)\<rparr>"
    unfolding s3_def s2_def s1_def using assms
    by (simp add: on_connection_def falsy_def or_else_def Let_def ws_send_def)
  show ?thesis
    unfolding main s3 by (simp add: s1_def s2_def ws_send_def)
qed

text \<open>What \<^verbatim>\<open>cleanupWebSocket\<close> does for a socket that carries a user id.\<close>

lemma cleanupWebSocket_eq:
  assumes "userId (sockets s ws) = Some uid" and "uid \<noteq> []"
  shows "cleanupWebSocket fl ws s =
     (case map_of (userSockets s) uid of
        None \<Rightarrow> s\<lparr>negotiationRooms := cleanup_rooms ws (negotiationRooms s)\<rparr>
      | Some xs \<Rightarrow>
          if set_delete ws xs = [] then
            s\<lparr>userSockets := AList.delete uid (AList.update uid [] (userSockets s)),
              negotiationRooms := cleanup_rooms ws (negotiationRooms s),
              users := (if fl UpdateUserOnlineStatus 0 then users s
                        else case users s uid of
                               None \<Rightarrow> users s
                             | Some u \<Rightarrow> (users s)(uid \<mapsto> u\<lparr>isOnline := False\<rparr>)),
              trace := trace s @ offline_effects fl uid s\<rparr>
          else
            s\<lparr>userSockets := AList.update uid (set_delete ws xs) (userSockets s),
              negotiationRooms := cleanup_rooms ws (negotiationRooms s)\<rparr>)"
proof (cases "map_of (userSockets s) uid")
  case None
  then show ?thesis
    using assms by (simp add: cleanupWebSocket_def falsy_def or_else_def Let_def)
next
  case (Some xs)
  show ?thesis
  proof (cases "set_delete ws xs = []")
    case False
    then show ?thesis
      using assms Some by (simp add: cleanupWebSocket_def falsy_def or_else_def Let_def)
  next
    case True
    define sB where "sB = s\<lparr>userSockets := AList.delete uid (AList.update uid [] (userSockets s))\<rparr>"
    define s1 where
      "s1 = (case updateUserOnlineStatus fl 0 uid False sB of
               Throws \<Rightarrow> sB
             | Returns (u, sC) \<Rightarrow>
                 (case setUserLastSeen fl 0 uid sC of
                    Throws \<Rightarrow> sC
                  | Returns sD \<Rightarrow>
                      (case u of
                         None \<Rightarrow> sD
                       | Some usr \<Rightarrow>
                           broadcastPresenceUpdate uid
                             (Some (or_else (username usr) ''Unknown'')) False sD)))"
    have pt: "presence_targets uid sB = presence_targets uid s"
      by (rule presence_targets_registered [where ws = ws and v = "[]"]) (simp_all add: sB_def)
    have fields: "users sB = users s" "trace sB = trace s"
      by (simp_all add: sB_def)
    have s1: "s1 = sB\<lparr>users := (if fl UpdateUserOnlineStatus 0 then users s
                        else case users s uid of
                               None \<Rightarrow> users s
                             | Some u \<Rightarrow> (users s)(uid \<mapsto> u\<lparr>isOnline := False\<rparr>)),
                     trace := trace s @ offline_effects fl uid s\<rparr>"
      by (cases "users s uid")
        (simp_all add: s1_def storage_defs broadcastPresenceUpdate_eq pt fields offline_effects_def)
    have main: "cleanupWebSocket fl ws s = s1\<lparr>negotiationRooms := cleanup_rooms ws (negotiationRooms s1)\<rparr>"
      unfolding s1_def sB_def using assms Some True
      by (simp add: cleanupWebSocket_def falsy_def or_else_def Let_def cong: outcome.case_cong)
    show ?thesis
      unfolding main s1 using Some True by (simp add: sB_def)
  qed
qed

subsection \<open>The invariant of the registry\<close>

lemma handshake_succeeds:
  assumes "\<not> handshake_fails jwt_verify token"
  obtains t dec uid where "token = Some t" and "t \<noteq> []" and "jwt_verify t = Some dec"
    and "d_userId dec = Some uid" and "uid \<noteq> []"
  using assms
  by (auto simp: handshake_fails_def falsy_def or_else_def split: option.splits)

lemma ws_close_inv: "registry_inv s \<Longrightarrow> registry_inv (ws_close ws code reason s)"
  by (auto simp: registry_inv_def ws_close_def)

lemma on_connection_inv:
  assumes "registry_inv s" and "ws < next_conn s"
  shows "registry_inv (on_connection jwt_verify fl ws token s)"
proof (cases "handshake_fails jwt_verify token")
  case True
  then obtain reason where "on_connection jwt_verify fl ws token s = ws_close ws 1008 reason s"
    using on_connection_fails by blast
  then show ?thesis using assms(1) by (simp add: ws_close_inv)
next
  case False
  then obtain t dec uid where ok: "token = Some t" "t \<noteq> []" "jwt_verify t = Some dec"
      "d_userId dec = Some uid" "uid \<noteq> []"
    by (rule handshake_succeeds)
  have sub: "conns_of (registry_add uid ws (userSockets s)) \<subseteq> insert ws (conns_of (userSockets s))"
    by (rule conns_of_registry_add)
  show ?thesis
    unfolding ok(1) on_connection_succeeds [where jwt_verify = jwt_verify, OF ok(3) ok(2) ok(4) ok(5)]
    using assms sub by (auto simp: registry_inv_def)
qed

lemma on_connection_other:
  assumes "c \<noteq> ws"
  shows "isAuthenticated (sockets (on_connection jwt_verify fl ws token s) c) = isAuthenticated (sockets s c)"
    and "next_conn (on_connection jwt_verify fl ws token s) = next_conn s"
proof -
  have "isAuthenticated (sockets (on_connection jwt_verify fl ws token s) c) = isAuthenticated (sockets s c)
      \<and> next_conn (on_connection jwt_verify fl ws token s) = next_conn s"
  proof (cases "handshake_fails jwt_verify token")
    case True
    then obtain reason where "on_connection jwt_verify fl ws token s = ws_close ws 1008 reason s"
      using on_connection_fails by blast
    then show ?thesis using assms by (simp add: ws_close_def)
  next
    case False
    then obtain t dec uid where ok: "token = Some t" "t \<noteq> []" "jwt_verify t = Some dec"
        "d_userId dec = Some uid" "uid \<noteq> []"
      by (rule handshake_succeeds)
    show ?thesis
      unfolding ok(1) on_connection_succeeds [where jwt_verify = jwt_verify, OF ok(3) ok(2) ok(4) ok(5)]
      using assms by simp
  qed
  then show "isAuthenticated (sockets (on_connection jwt_verify fl ws token s) c) = isAuthenticated (sockets s c)"
    and "next_conn (on_connection jwt_verify fl ws token s) = next_conn s"
    by simp_all
qed

lemma conns_of_delete_update:
  "map_of m k = Some xs \<Longrightarrow> conns_of (AList.delete k (AList.update k [] m)) \<subseteq> conns_of m"
  using conns_of_delete [of k m] by (simp add: delete_update_same)

lemma conns_of_update_delete_set:
  "map_of m k = Some xs \<Longrightarrow> conns_of (AList.update k (set_delete ws xs) m) \<subseteq> conns_of m"
  using conns_of_update [of k "set_delete ws xs" m] conns_of_map_of [of m k xs] by auto

lemma confs_offline_effects [simp]: "confs (offline_effects fl uid s) = []"
  by (simp add: offline_effects_def split: option.splits)

lemma cleanup_facts_all:
  "sockets (cleanupWebSocket fl ws s) = sockets s
   \<and> next_conn (cleanupWebSocket fl ws s) = next_conn s
   \<and> negotiations (cleanupWebSocket fl ws s) = negotiations s
   \<and> messages (cleanupWebSocket fl ws s) = messages s
   \<and> confs (trace (cleanupWebSocket fl ws s)) = confs (trace s)
   \<and> conns_of (userSockets (cleanupWebSocket fl ws s)) \<subseteq> conns_of (userSockets s)
   \<and> conns_of (negotiationRooms (cleanupWebSocket fl ws s)) \<subseteq> conns_of (negotiationRooms s)"
proof (cases "falsy (userId (sockets s ws))")
  case True
  then have "cleanupWebSocket fl ws s = s" by (simp add: cleanupWebSocket_def)
  then show ?thesis by simp
next
  case False
  then obtain uid where uid: "userId (sockets s ws) = Some uid" "uid \<noteq> []"
    by (auto simp: falsy_def)
  show ?thesis
    unfolding cleanupWebSocket_eq [OF uid, of fl]
    by (simp add: conns_of_delete_update conns_of_update_delete_set conns_of_cleanup_rooms
        split: option.splits)
qed

lemma cleanup_facts:
  "sockets (cleanupWebSocket fl ws s) = sockets s"
  "next_conn (cleanupWebSocket fl ws s) = next_conn s"
  "negotiations (cleanupWebSocket fl ws s) = negotiations s"
  "messages (cleanupWebSocket fl ws s) = messages s"
  "confs (trace (cleanupWebSocket fl ws s)) = confs (trace s)"
  "conns_of (userSockets (cleanupWebSocket fl ws s)) \<subseteq> conns_of (userSockets s)"
  "conns_of (negotiationRooms (cleanupWebSocket fl ws s)) \<subseteq> conns_of (negotiationRooms s)"
  using cleanup_facts_all [of fl ws s] by simp_all

lemma cleanup_inv: "registry_inv s \<Longrightarrow> registry_inv (cleanupWebSocket fl ws s)"
  using cleanup_facts(6,7) [of fl ws s]
  by (auto simp: registry_inv_def cleanup_facts(1,2,5))

lemma cleanup_auth_same: "auth_same s (cleanupWebSocket fl ws s)"
  by (simp add: auth_same_def cleanup_facts)

lemma step_inv: "registry_inv s \<Longrightarrow> registry_inv (step jwt_verify i s)"
proof -
  assume inv: "registry_inv s"
  obtain fl inp where i: "i = (fl, inp)" by (cases i)
  show ?thesis
  proof (cases inp)
    case (Connection token)
    have "registry_inv (new_socket s)"
      using inv by (auto simp: registry_inv_def new_socket_def less_Suc_eq)
    moreover have "next_conn s < next_conn (new_socket s)"
      by (simp add: new_socket_def)
    moreover have "registry_inv (s\<lparr>trace := trace s @ [UpgradeRefused 401]\<rparr>)"
      using inv by (simp add: registry_inv_def confs_def List.map_filter_def)
    ultimately show ?thesis
      by (simp add: i Connection on_connection_inv)
  next
    case (Message ws data)
    have "registry_inv (ws_send ws (ErrorFrame e) s)" for e
      using inv by (rule same_registry_inv [OF same_registry_error])
    then show ?thesis
      using inv by (simp add: i Message on_message_def handleWebSocketMessage_inv split: option.splits)
  next
    case (Close ws)
    have "registry_inv (s\<lparr>sockets := (sockets s)(ws := (sockets s ws)\<lparr>readyState := CLOSED\<rparr>)\<rparr>)"
      using inv by (auto simp: registry_inv_def)
    then show ?thesis
      by (simp add: i Close cleanup_inv Let_def)
  next
    case (SocketError ws)
    then show ?thesis using inv by (simp add: i cleanup_inv)
  qed
qed

lemma run_Nil [simp]: "run jwt_verify [] s = s"
  by (simp add: run_def)

lemma run_Cons [simp]: "run jwt_verify (i # ins) s = run jwt_verify ins (step jwt_verify i s)"
  by (simp add: run_def)

lemma run_inv: "registry_inv s \<Longrightarrow> registry_inv (run jwt_verify ins s)"
  by (induction ins arbitrary: s) (simp_all add: step_inv)

lemma init_inv: "registry_inv (init ns us ms)"
  by (simp add: registry_inv_def init_def)

text \<open>A socket that exists and is not authenticated stays so: only the connection handler
  authenticates, and only the socket it was called for.\<close>

lemma step_unauthenticated:
  assumes "c < next_conn s" and "\<not> isAuthenticated (sockets s c)"
  shows "c < next_conn (step jwt_verify i s) \<and> \<not> isAuthenticated (sockets (step jwt_verify i s) c)"
proof -
  obtain fl inp where i: "i = (fl, inp)" by (cases i)
  show ?thesis
  proof (cases inp)
    case (Connection token)
    have ne: "c \<noteq> next_conn s" using assms(1) by simp
    show ?thesis
      using assms ne
      by (simp add: i Connection on_connection_other [OF ne] new_socket_def)
  next
    case (Message ws data)
    have "auth_same s (step jwt_verify i s)"
      using handleWebSocketMessage_auth_same [of s fl ws]
      by (auto simp: i Message on_message_def auth_same_def ws_send_def split: option.splits)
    then show ?thesis using assms by (simp add: auth_same_def)
  next
    case (Close ws)
    then show ?thesis
      using assms by (auto simp: i Let_def cleanup_facts)
  next
    case (SocketError ws)
    then show ?thesis
      using assms by (simp add: i cleanup_facts)
  qed
qed

lemma run_unauthenticated:
  "c < next_conn s \<Longrightarrow> \<not> isAuthenticated (sockets s c) \<Longrightarrow>
   c < next_conn (run jwt_verify ins s) \<and> \<not> isAuthenticated (sockets (run jwt_verify ins s) c)"
proof (induction ins arbitrary: s)
  case Nil
  then show ?case by simp
next
  case (Cons i ins)
  have "c < next_conn (step jwt_verify i s) \<and> \<not> isAuthenticated (sockets (step jwt_verify i s) c)"
    using Cons.prems by (rule step_unauthenticated)
  then show ?case using Cons.IH by simp
qed

subsection \<open>Terminal negotiations\<close>

lemma validate_terminal:
  "negotiations s nid = Some n \<Longrightarrow> terminal n \<Longrightarrow> \<not> fl GetNegotiation 0 \<Longrightarrow>
   validateNegotiationAccess fl u nid s =
     Returns (Denied ''Cannot modify completed or cancelled negotiation'')"
  by (simp add: validateNegotiationAccess_def getNegotiation_def terminal_def)








subsection \<open>Failed handshakes\<close>

text \<open>C3, as amended. An upgrade request whose token is absent or empty is refused by
  \<^verbatim>\<open>verifyClient\<close> with HTTP 401: there is no socket and no close code, and the state is
  the one before. A socket whose token \<^verbatim>\<open>jwt.verify\<close> refuses, or whose payload has no
  user id, gets the close code 1008 and nothing else, and whatever reaches the server
  afterwards, it is in no set of \<open>userSockets\<close>, in no room, and no
  \<^verbatim>\<open>connection_confirmed\<close> frame is ever sent to it.\<close>

theorem failed_handshake_never_registered:
  assumes "handshake_fails jwt_verify token"
  shows "let s = run jwt_verify pre (init ns us ms);
             ws = next_conn s;
             s1 = step jwt_verify (fl, Connection token) s;
             s' = run jwt_verify post s1
         in if verifyClient token
            then emitted s s1 =
                   [WsClose ws 1008
                      (if jwt_verify (or_else token []) = None then ''Authentication failed''
                       else ''Invalid token payload'')]
               \<and> ws \<notin> conns_of (userSockets s') \<and> ws \<notin> conns_of (negotiationRooms s')
               \<and> ws \<notin> set (confs (trace s'))
            else s1 = s\<lparr>trace := trace s @ [UpgradeRefused 401]\<rparr>"
proof (cases "verifyClient token")
  case False
  then show ?thesis
    by (simp add: Let_def)
next
  case True
  define s where "s = run jwt_verify pre (init ns us ms)"
  define ws where "ws = next_conn s"
  define s1 where "s1 = step jwt_verify (fl, Connection token) s"
  define s' where "s' = run jwt_verify post s1"
  define reason where "reason = (if jwt_verify (or_else token []) = None
      then ''Authentication failed'' else ''Invalid token payload'')"
  have nf: "\<not> falsy token"
    using True by (simp add: verifyClient_def)
  have fails: "on_connection jwt_verify fl ws token (new_socket s) =
      ws_close ws 1008 reason (new_socket s)"
    using assms nf
    by (auto simp: handshake_fails_def on_connection_def reason_def split: option.splits)
  have s1: "s1 = ws_close ws 1008 reason (new_socket s)"
    by (simp add: s1_def ws_def True fails [unfolded ws_def])
  have closed: "emitted s s1 = [WsClose ws 1008 reason]"
    by (simp add: s1 emitted_def ws_close_def new_socket_def)
  have "registry_inv s"
    unfolding s_def by (rule run_inv [OF init_inv])
  then have "registry_inv s1"
    unfolding s1_def by (rule step_inv)
  then have inv: "registry_inv s'"
    unfolding s'_def by (rule run_inv)
  have "ws < next_conn s1" "\<not> isAuthenticated (sockets s1 ws)"
    by (simp_all add: s1 ws_close_def new_socket_def ws_def)
  then have "\<not> isAuthenticated (sockets s' ws)"
    unfolding s'_def using run_unauthenticated by blast
  then have "ws \<notin> conns_of (userSockets s') \<and> ws \<notin> conns_of (negotiationRooms s')
      \<and> ws \<notin> set (confs (trace s'))"
    using inv by (auto simp: registry_inv_def)
  then show ?thesis
    using closed True
    unfolding Let_def s_def [symmetric] ws_def [symmetric] s1_def [symmetric] s'_def [symmetric]
      reason_def [symmetric]
    by simp
qed

text \<open>C3 as stated fails for an absent token: the first request a server gets has no
  token. It is refused with HTTP 401; no socket is made and no close code is sent.\<close>

theorem absent_token_refused_at_upgrade_counterexample:
  "handshake_fails jwt_ex None
   \<and> step jwt_ex (no_faults, Connection None) (init [''N1'' \<mapsto> neg_ex ''active''] users_ex []) =
       (init [''N1'' \<mapsto> neg_ex ''active''] users_ex [])\<lparr>trace := [UpgradeRefused 401]\<rparr>
   \<and> emitted (init [''N1'' \<mapsto> neg_ex ''active''] users_ex [])
        (step jwt_ex (no_faults, Connection None) (init [''N1'' \<mapsto> neg_ex ''active''] users_ex []))
       = [UpgradeRefused 401]
   \<and> next_conn (step jwt_ex (no_faults, Connection None)
        (init [''N1'' \<mapsto> neg_ex ''active''] users_ex [])) = 0"
  by (simp add: handshake_fails_def falsy_def verifyClient_def init_def emitted_def)

text \<open>An instance of the amended C3: after \<open>U1\<close> has connected, a request comes with a token
  that \<^verbatim>\<open>jwt.verify\<close> refuses, and its socket then sends a join frame; and a request
  with an empty token.\<close>

theorem failed_handshake_never_registered_witness:
  "handshake_fails jwt_ex (Some ''forged'') \<and> handshake_fails jwt_ex (Some [])
   \<and> (let s = run jwt_ex [(no_faults, Connection (Some ''t1''))]
                 (init [''N1'' \<mapsto> neg_ex ''active''] users_ex []);
          ws = next_conn s;
          s1 = step jwt_ex (no_faults, Connection (Some ''forged'')) s;
          s' = run jwt_ex [(no_faults, Message 1 (Some (join_frame ''N1'')))] s1
      in emitted s s1 = [WsClose ws 1008 ''Authentication failed'']
         \<and> ws \<notin> conns_of (userSockets s') \<and> ws \<notin> conns_of (negotiationRooms s')
         \<and> ws \<notin> set (confs (trace s')))
   \<and> (let s = run jwt_ex [(no_faults, Connection (Some ''t1''))]
                 (init [''N1'' \<mapsto> neg_ex ''active''] users_ex [])
      in step jwt_ex (no_faults, Connection (Some [])) s = s\<lparr>trace := trace s @ [UpgradeRefused 401]\<rparr>)"
proof -
  have h: "handshake_fails jwt_ex (Some ''forged'')"
    by (simp add: handshake_fails_def jwt_ex_def falsy_def or_else_def)
  have h': "handshake_fails jwt_ex (Some [])"
    by (simp add: handshake_fails_def falsy_def)
  have v: "verifyClient (Some ''forged'')" "\<not> verifyClient (Some [])"
    "jwt_ex (or_else (Some ''forged'') []) = None"
    by (simp_all add: verifyClient_def falsy_def or_else_def jwt_ex_def)
  show ?thesis
    using h h' failed_handshake_never_registered [OF h, of "[(no_faults, Connection (Some ''t1''))]"
        "[''N1'' \<mapsto> neg_ex ''active'']" users_ex "[]" no_faults
        "[(no_faults, Message 1 (Some (join_frame ''N1'')))]"]
      failed_handshake_never_registered [OF h', of "[(no_faults, Connection (Some ''t1''))]"
        "[''N1'' \<mapsto> neg_ex ''active'']" users_ex "[]" no_faults "[]"]
    by (simp add: v Let_def)
qed

subsection \<open>Offers\<close>



lemma emitted_trace_update [simp]: "emitted s (s'\<lparr>trace := trace s @ t\<rparr>) = t"
  by (simp add: emitted_def)

lemma emitted_ws_send [simp]: "emitted s (ws_send ws f s) = [WsSend ws f]"
  by (simp add: ws_send_def)

lemma emitted_same [simp]: "emitted s s = []"
  by (simp add: emitted_def)



lemma parse_offer_frame [simp]:
  "wsMessageSchema_parse (offer_frame n a) = (if 0 < a then Some (NegotiationOffer n a None) else None)"
  by (simp add: wsMessageSchema_parse_def offer_frame_def field_def z_string_def
      z_number_positive_def z_string_optional_def)

lemma parse_chat_frame [simp]:
  "wsMessageSchema_parse (chat_frame n c) =
     (if 1 \<le> length c \<and> length c \<le> 1000 then Some (NegotiationMessage n c) else None)"
  by (simp add: wsMessageSchema_parse_def chat_frame_def field_def z_string_def)

lemma state_ex_simps [simp]:
  "negotiations (state_ex st) ''N1'' = Some (neg_ex st)"
  "userId (sockets (state_ex st) 0) = Some ''U1''"
  "userId (sockets (state_ex st) (Suc 0)) = Some ''U2''"
  "authenticated (state_ex st) 0"
  "authenticated (state_ex st) (Suc 0)"
  "messages (state_ex st) = []"
  "trace (state_ex st) = []"
  "room_of (state_ex st) ''N1'' = [0, Suc 0]"
  "open_of (state_ex st) [0, Suc 0] = [0, Suc 0]"
  "users (state_ex st) = users_ex"
  by (simp_all add: state_ex_def sock_ex_def authenticated_def falsy_def room_of_def open_of_def)

lemma neg_ex_simps [simp]:
  "buyerId (neg_ex st) = ''U1''" "sellerId (neg_ex st) = ''U2''" "status (neg_ex st) = Some st"
  "currentOffer (neg_ex st) = Some 90"
  by (simp_all add: neg_ex_def)

lemma no_faults_simp [simp]: "\<not> no_faults op k"
  by (simp add: no_faults_def)




subsection \<open>Persistence before broadcast\<close>

lemma persisted_first_updates:
  "persisted_first seen (map (\<lambda>c. WsSend c (NegotiationUpdate nid m)) xs @ rest) =
     ((xs \<noteq> [] \<longrightarrow> (\<exists>row \<in> set seen. row_matches nid m row)) \<and> persisted_first seen rest)"
  by (induction xs) auto

lemma persisted_first_updates_only:
  "persisted_first seen (map (\<lambda>c. WsSend c (NegotiationUpdate nid m)) xs) =
     (xs \<noteq> [] \<longrightarrow> (\<exists>row \<in> set seen. row_matches nid m row))"
  using persisted_first_updates [of seen nid m xs "[]"] by simp

lemma persisted_first_status_updates:
  "persisted_first seen (map (\<lambda>c. WsSend c (NegotiationStatusUpdate a b c' d e)) xs) =
     (xs \<noteq> [] \<longrightarrow> seen \<noteq> [])"
  by (induction xs) auto

lemma sends_of_simps [simp]:
  "sends_of [] = []"
  "sends_of (Storage w # t) = sends_of t"
  "sends_of (WsSend c f # t) = WsSend c f # sends_of t"
  "sends_of (WsClose c k r # t) = WsClose c k r # sends_of t"
  by (simp_all add: sends_of_def)

text \<open>C5. For each of the six negotiation frames: every \<^verbatim>\<open>negotiation_update\<close> the
  handler sends comes after the insert of its row (and every
  \<^verbatim>\<open>negotiation_status_update\<close> after an insert); and when \<^verbatim>\<open>createMessage\<close> throws,
  the only frame sent is one error frame to the sender, no socket changes (none is
  closed) and the log is as before.\<close>

theorem persist_before_broadcast:
  assumes "wsMessageSchema_parse message = Some vm" and "mutating_target vm = Some nid"
    and "authenticated s ws"
  shows "let s' = handleWebSocketMessage fl ws message s in
     persisted_first [] (emitted s s')
     \<and> (fl CreateMessage 0 \<longrightarrow>
          (\<exists>e. sends_of (emitted s s') = [WsSend ws (ErrorFrame e)])
          \<and> sockets s' = sockets s \<and> messages s' = messages s)"
proof -
  have eq: "handleWebSocketMessage fl ws message s = dispatch fl ws vm s"
    using assms by (simp add: handleWebSocketMessage_eq)
  have "persisted_first [] (emitted s (dispatch fl ws vm s))"
    using assms(2)
    by (cases vm)
      (auto simp: handler_defs validateNegotiationAccess_def name_and_broadcast_def
        storage_defs broadcastNegotiationUpdate_eq broadcastNegotiationStatusUpdate_eq
        Let_def ws_send_def emitted_def row_matches_def
        persisted_first_updates persisted_first_updates_only persisted_first_status_updates
        split: outcome.splits access.splits option.splits prod.splits if_splits)
  moreover have "(\<exists>e. sends_of (emitted s (dispatch fl ws vm s)) = [WsSend ws (ErrorFrame e)])
      \<and> sockets (dispatch fl ws vm s) = sockets s \<and> messages (dispatch fl ws vm s) = messages s"
    if "fl CreateMessage 0"
    using assms(2) that
    by (cases vm)
      (auto simp: handler_defs validateNegotiationAccess_def name_and_broadcast_def
        storage_defs Let_def ws_send_def emitted_def
        split: outcome.splits access.splits option.splits prod.splits if_splits)
  ultimately show ?thesis
    unfolding Let_def eq by blast
qed

text \<open>An instance of C5: the buyer's offer on the active negotiation \<open>N1\<close> when
  \<^verbatim>\<open>createMessage\<close> throws.\<close>

theorem persist_before_broadcast_witness:
  "wsMessageSchema_parse (offer_frame ''N1'' 50) = Some (NegotiationOffer ''N1'' 50 None)
   \<and> mutating_target (NegotiationOffer ''N1'' 50 None) = Some ''N1''
   \<and> authenticated (state_ex ''active'') 0
   \<and> create_fails CreateMessage 0
   \<and> (let s' = handleWebSocketMessage create_fails 0 (offer_frame ''N1'' 50) (state_ex ''active'')
       in persisted_first [] (emitted (state_ex ''active'') s')
          \<and> (\<exists>e. sends_of (emitted (state_ex ''active'') s') = [WsSend 0 (ErrorFrame e)])
          \<and> sockets s' = sockets (state_ex ''active'')
          \<and> messages s' = messages (state_ex ''active''))"
proof -
  have h1: "wsMessageSchema_parse (offer_frame ''N1'' 50) = Some (NegotiationOffer ''N1'' 50 None)"
    by simp
  have h2: "mutating_target (NegotiationOffer ''N1'' 50 None) = Some ''N1''"
    by simp
  have h3: "authenticated (state_ex ''active'') 0"
    by simp
  have h4: "create_fails CreateMessage 0"
    by (simp add: create_fails_def)
  show ?thesis
    using persist_before_broadcast [OF h1 h2 h3, of create_fails] h1 h2 h3 h4
    by (simp add: Let_def)
qed


subsection \<open>Chat and status frames\<close>

lemma chat_messages:
  assumes "negotiations s nid = Some n" and "userId (sockets s ws) = Some uid"
    and "uid = buyerId n \<or> uid = sellerId n"
  shows "terminal n \<Longrightarrow> messages (handleNegotiationMessage fl ws nid content s) = messages s"
    and "\<not> terminal n \<Longrightarrow> \<not> fl GetNegotiation 0 \<Longrightarrow> \<not> fl CreateMessage 0 \<Longrightarrow>
         messages (handleNegotiationMessage fl ws nid content s) =
           messages s @ [new_row s nid uid Chat content None]"
  using assms
  by (auto simp: handleNegotiationMessage_def validateNegotiationAccess_def terminal_def
      name_and_broadcast_def storage_defs broadcastNegotiationUpdate_eq Let_def ws_send_def
      new_row_def split: outcome.splits)

lemma status_messages:
  assumes "negotiations s nid = Some n" and "userId (sockets s ws) = Some uid"
    and "uid = buyerId n \<or> uid = sellerId n"
  shows "terminal n \<Longrightarrow> messages (handleNegotiationStatus fl ws nid st s) = messages s"
    and "\<not> terminal n \<Longrightarrow> \<not> fl GetNegotiation 0 \<Longrightarrow> \<not> fl UpdateNegotiationStatus 0
         \<Longrightarrow> \<not> fl CreateMessage 0 \<Longrightarrow>
         messages (handleNegotiationStatus fl ws nid st s) =
           messages s @ [new_row s nid uid Status (''Negotiation status changed to: '' @ st) None]"
  using assms
  by (auto simp: handleNegotiationStatus_def validateNegotiationAccess_def terminal_def
      name_and_broadcast_def storage_defs broadcastNegotiationUpdate_eq
      broadcastNegotiationStatusUpdate_eq Let_def ws_send_def
      new_row_def split: outcome.splits option.splits)

lemma chat_refused:
  assumes "negotiations s nid = Some n" and "terminal n"
  shows "handleNegotiationMessage fl ws nid content s =
     ws_send ws (ErrorFrame (if fl GetNegotiation 0 then ''Failed to send message''
                             else ''Cannot modify completed or cancelled negotiation'')) s"
  using assms
  by (simp add: handleNegotiationMessage_def validateNegotiationAccess_def getNegotiation_def
      terminal_def Let_def)

lemma status_refused:
  assumes "negotiations s nid = Some n" and "terminal n"
  shows "handleNegotiationStatus fl ws nid st s =
     ws_send ws (ErrorFrame (if fl GetNegotiation 0 then ''Failed to update status''
                             else ''Cannot modify completed or cancelled negotiation'')) s"
  using assms
  by (simp add: handleNegotiationStatus_def validateNegotiationAccess_def getNegotiation_def
      terminal_def Let_def)

text \<open>C9, as amended. A chat or status frame of a participant is persisted when the
  negotiation is not completed or cancelled (so also when it is accepted or rejected) and
  no storage call throws. On a completed or cancelled negotiation the frame is refused:
  whatever the storage does, all that happens is one error frame to the sender (with the
  text of \<^verbatim>\<open>validateNegotiationAccess\<close>, or the one of the handler's \<^verbatim>\<open>catch\<close> when the
  read of the negotiation throws); nothing is persisted, the status is not written, and
  nothing is broadcast.\<close>

theorem chat_and_status_persisted_unless_terminal:
  assumes "authenticated s ws" and "negotiations s nid = Some n"
    and "userId (sockets s ws) = Some uid" and "uid = buyerId n \<or> uid = sellerId n"
  shows "(wsMessageSchema_parse message = Some (NegotiationMessage nid content) \<longrightarrow>
           (let s' = handleWebSocketMessage fl ws message s in
              (terminal n \<longrightarrow> messages s' = messages s)
              \<and> (\<not> terminal n \<and> \<not> fl GetNegotiation 0 \<and> \<not> fl CreateMessage 0 \<longrightarrow>
                   messages s' = messages s @ [new_row s nid uid Chat content None])
              \<and> (terminal n \<longrightarrow>
                   s' = ws_send ws
                          (ErrorFrame (if fl GetNegotiation 0 then ''Failed to send message''
                             else ''Cannot modify completed or cancelled negotiation'')) s)))
       \<and> (wsMessageSchema_parse message = Some (NegotiationStatus nid st) \<longrightarrow>
           (let s' = handleWebSocketMessage fl ws message s in
              (terminal n \<longrightarrow> messages s' = messages s)
              \<and> (\<not> terminal n \<and> \<not> fl GetNegotiation 0 \<and> \<not> fl UpdateNegotiationStatus 0
                   \<and> \<not> fl CreateMessage 0 \<longrightarrow>
                   messages s' = messages s @
                     [new_row s nid uid Status (''Negotiation status changed to: '' @ st) None])
              \<and> (terminal n \<longrightarrow>
                   s' = ws_send ws
                          (ErrorFrame (if fl GetNegotiation 0 then ''Failed to update status''
                             else ''Cannot modify completed or cancelled negotiation'')) s)))"
proof -
  have chat: "handleNegotiationMessage fl ws nid content s =
      ws_send ws (ErrorFrame (if fl GetNegotiation 0 then ''Failed to send message''
                              else ''Cannot modify completed or cancelled negotiation'')) s"
    if "terminal n"
    using assms(2) that by (rule chat_refused)
  have stat: "handleNegotiationStatus fl ws nid st s =
      ws_send ws (ErrorFrame (if fl GetNegotiation 0 then ''Failed to update status''
                              else ''Cannot modify completed or cancelled negotiation'')) s"
    if "terminal n"
    using assms(2) that by (rule status_refused)
  show ?thesis
  proof (cases "terminal n")
    case True
    then show ?thesis
      using assms(1) chat stat
      by (simp add: handleWebSocketMessage_eq Let_def) (simp add: ws_send_def)
  next
    case False
    then show ?thesis
      using assms(1) chat_messages(2) [OF assms(2-4)] status_messages(2) [OF assms(2-4)]
      by (simp add: handleWebSocketMessage_eq Let_def)
  qed
qed

text \<open>C9 as stated fails: the buyer's chat message on the completed negotiation \<open>N1\<close> is
  refused, and the log stays as it is.\<close>

theorem chat_on_completed_negotiation_counterexample:
  "status (neg_ex ''completed'') = Some ''completed''
   \<and> negotiations (state_ex ''completed'') ''N1'' = Some (neg_ex ''completed'')
   \<and> userId (sockets (state_ex ''completed'') 0) = Some (buyerId (neg_ex ''completed''))
   \<and> wsMessageSchema_parse (chat_frame ''N1'' ''hello'') = Some (NegotiationMessage ''N1'' ''hello'')
   \<and> (let s' = handleWebSocketMessage no_faults 0 (chat_frame ''N1'' ''hello'') (state_ex ''completed'')
       in messages s' = messages (state_ex ''completed'')
          \<and> emitted (state_ex ''completed'') s' =
               [WsSend 0 (ErrorFrame ''Cannot modify completed or cancelled negotiation'')])"
proof -
  have "handleWebSocketMessage no_faults 0 (chat_frame ''N1'' ''hello'') (state_ex ''completed'') =
      ws_send 0 (ErrorFrame ''Cannot modify completed or cancelled negotiation'') (state_ex ''completed'')"
    by (simp add: handleWebSocketMessage_eq handleNegotiationMessage_def
        validate_terminal [where n = "neg_ex ''completed''"] terminal_def)
  then show ?thesis
    by (simp add: ws_send_def emitted_def)
qed

lemma parse_status_frame [simp]:
  "wsMessageSchema_parse (status_frame n st) =
     (if st \<in> set [''active'', ''completed'', ''cancelled''] then Some (NegotiationStatus n st) else None)"
  by (simp add: wsMessageSchema_parse_def status_frame_def field_def z_string_def)

text \<open>An instance of the amended C9: the seller's chat message on an accepted
  negotiation is persisted; the buyer's status frame on a completed negotiation gets the
  error frame, and the negotiation and the log stay as they are.\<close>

theorem chat_and_status_persisted_unless_terminal_witness:
  "authenticated (state_ex ''accepted'') 1
   \<and> negotiations (state_ex ''accepted'') ''N1'' = Some (neg_ex ''accepted'')
   \<and> userId (sockets (state_ex ''accepted'') 1) = Some ''U2''
   \<and> ''U2'' = sellerId (neg_ex ''accepted'')
   \<and> \<not> terminal (neg_ex ''accepted'')
   \<and> wsMessageSchema_parse (chat_frame ''N1'' ''hello'') = Some (NegotiationMessage ''N1'' ''hello'')
   \<and> messages (handleWebSocketMessage no_faults 1 (chat_frame ''N1'' ''hello'') (state_ex ''accepted''))
       = messages (state_ex ''accepted'') @
           [new_row (state_ex ''accepted'') ''N1'' ''U2'' Chat ''hello'' None]
   \<and> authenticated (state_ex ''completed'') 0
   \<and> negotiations (state_ex ''completed'') ''N1'' = Some (neg_ex ''completed'')
   \<and> userId (sockets (state_ex ''completed'') 0) = Some ''U1''
   \<and> ''U1'' = buyerId (neg_ex ''completed'')
   \<and> terminal (neg_ex ''completed'')
   \<and> wsMessageSchema_parse (status_frame ''N1'' ''active'') = Some (NegotiationStatus ''N1'' ''active'')
   \<and> handleWebSocketMessage no_faults 0 (status_frame ''N1'' ''active'') (state_ex ''completed'') =
       ws_send 0 (ErrorFrame ''Cannot modify completed or cancelled negotiation'')
         (state_ex ''completed'')"
proof -
  have h1: "authenticated (state_ex ''accepted'') 1" by simp
  have h2: "negotiations (state_ex ''accepted'') ''N1'' = Some (neg_ex ''accepted'')" by simp
  have h3: "userId (sockets (state_ex ''accepted'') 1) = Some ''U2''" by simp
  have h4: "''U2'' = buyerId (neg_ex ''accepted'') \<or> ''U2'' = sellerId (neg_ex ''accepted'')" by simp
  have h5: "\<not> terminal (neg_ex ''accepted'')" by (simp add: terminal_def)
  have k1: "authenticated (state_ex ''completed'') 0" by simp
  have k2: "negotiations (state_ex ''completed'') ''N1'' = Some (neg_ex ''completed'')" by simp
  have k3: "userId (sockets (state_ex ''completed'') 0) = Some ''U1''" by simp
  have k4: "''U1'' = buyerId (neg_ex ''completed'') \<or> ''U1'' = sellerId (neg_ex ''completed'')" by simp
  have k5: "terminal (neg_ex ''completed'')" by (simp add: terminal_def)
  show ?thesis
    using chat_and_status_persisted_unless_terminal [OF h1 h2 h3 h4,
        of "chat_frame ''N1'' ''hello''" "''hello''" no_faults] h5
      chat_and_status_persisted_unless_terminal [OF k1 k2 k3 k4,
        where message = "status_frame ''N1'' ''active''" and st = "''active''" and fl = no_faults] k5
    by (simp add: Let_def)
qed

subsection \<open>Unknown frame types\<close>

lemma unknown_type_refused_by_schema:
  assumes "\<And>t. field message ''type'' = Some (JStr t) \<Longrightarrow> t \<notin> set known_types"
  shows "wsMessageSchema_parse message = None"
  using assms
  by (auto simp: wsMessageSchema_parse_def known_types_def split: option.splits json.splits)

text \<open>C6. A frame whose \<^verbatim>\<open>type\<close> is none of the ten known kinds is refused by the schema,
  and the reply to an authenticated socket is the error frame of the \<^verbatim>\<open>catch\<close>, with the
  text \<^verbatim>\<open>Invalid message format\<close>: never the one of the \<^verbatim>\<open>default\<close> arm of the switch,
  \<^verbatim>\<open>Unknown message type: <type>\<close>. No socket is closed.\<close>

theorem unknown_type_invalid_format:
  assumes "authenticated s ws"
    and "\<forall>t. field message ''type'' = Some (JStr t) \<longrightarrow> t \<notin> set known_types"
  shows "handleWebSocketMessage fl ws message s = ws_send ws (ErrorFrame ''Invalid message format'') s"
proof -
  have "wsMessageSchema_parse message = None"
    by (rule unknown_type_refused_by_schema) (use assms(2) in blast)
  then show ?thesis
    using assms(1) by (simp add: handleWebSocketMessage_eq)
qed

text \<open>The frame \<^verbatim>\<open>{"type": "foo"}\<close> from an authenticated socket.\<close>

theorem unknown_type_invalid_format_witness:
  "authenticated (state_ex ''active'') 0
   \<and> field (JObj [(''type'', JStr ''foo'')]) ''type'' = Some (JStr ''foo'')
   \<and> ''foo'' \<notin> set known_types
   \<and> type_text (JObj [(''type'', JStr ''foo'')]) = ''foo''
   \<and> emitted (state_ex ''active'')
        (handleWebSocketMessage no_faults 0 (JObj [(''type'', JStr ''foo'')]) (state_ex ''active''))
      = [WsSend 0 (ErrorFrame ''Invalid message format'')]
   \<and> ''Invalid message format'' \<noteq> ''Unknown message type: foo''"
proof -
  have h1: "authenticated (state_ex ''active'') 0"
    by simp
  have h2: "\<forall>t. field (JObj [(''type'', JStr ''foo'')]) ''type'' = Some (JStr t) \<longrightarrow> t \<notin> set known_types"
    by (simp add: field_def known_types_def)
  show ?thesis
    using unknown_type_invalid_format [OF h1 h2, of no_faults] h1
    by (simp add: known_types_def type_text_def field_def emitted_def ws_send_def)
qed

subsection \<open>Rooms\<close>

lemma parse_join_frame [simp]: "wsMessageSchema_parse (join_frame n) = Some (JoinNegotiation n)"
  by (simp add: wsMessageSchema_parse_def join_frame_def field_def z_string_def)

lemma parse_leave_frame [simp]: "wsMessageSchema_parse (leave_frame n) = Some (LeaveNegotiation n)"
  by (simp add: wsMessageSchema_parse_def leave_frame_def field_def z_string_def)

lemma map_of_registry_add:
  "map_of (registry_add k ws m) k' =
     (if k' = k then Some (set_add ws (case map_of m k of None \<Rightarrow> [] | Some xs \<Rightarrow> xs))
      else map_of m k')"
  by (simp add: registry_add_eq update_conv' set_add_def split: option.splits)



lemma join_succeeds:
  assumes "authenticated s ws" and "nid \<noteq> []" and "negotiations s nid = Some n"
    and "userId (sockets s ws) = Some (buyerId n) \<or> userId (sockets s ws) = Some (sellerId n)"
    and "\<not> fl GetNegotiation 0"
  shows "handleWebSocketMessage fl ws (join_frame nid) s =
     ws_send ws (NegotiationJoined nid)
       (s\<lparr>negotiationRooms := registry_add nid ws (negotiationRooms s)\<rparr>)"
  using assms
  by (auto simp: handleWebSocketMessage_eq handleJoinNegotiation_def authenticated_def
      getNegotiation_def)


lemma room_of_registry_add [simp]:
  "room_of (ws_send c f (s\<lparr>negotiationRooms := registry_add nid ws (negotiationRooms s)\<rparr>)) nid =
     set_add ws (room_of s nid)"
  by (simp add: room_of_def ws_send_def map_of_registry_add split: option.splits)





text \<open>C10. A join by a participant succeeds whatever the status of the negotiation is (no
  hypothesis on it): the socket is in the room, it is sent \<^verbatim>\<open>negotiation_joined\<close>, and a
  later broadcast to the room reaches it as long as it is open.\<close>

theorem join_ignores_status:
  assumes "authenticated s ws" and "nid \<noteq> []" and "negotiations s nid = Some n"
    and "userId (sockets s ws) = Some (buyerId n) \<or> userId (sockets s ws) = Some (sellerId n)"
    and "\<not> fl GetNegotiation 0"
  shows "let s' = handleWebSocketMessage fl ws (join_frame nid) s in
     ws \<in> set (room_of s' nid)
     \<and> emitted s s' = [WsSend ws (NegotiationJoined nid)]
     \<and> (readyState (sockets s' ws) = OPEN \<longrightarrow>
          (\<forall>f. WsSend ws f \<in> set (emitted s' (broadcastToNegotiation nid f s'))))"
proof -
  have eq: "handleWebSocketMessage fl ws (join_frame nid) s =
      ws_send ws (NegotiationJoined nid)
        (s\<lparr>negotiationRooms := registry_add nid ws (negotiationRooms s)\<rparr>)"
    using assms by (rule join_succeeds)
  show ?thesis
    unfolding Let_def eq
    by (auto simp: broadcastToNegotiation_eq open_of_def emitted_def ws_send_def room_of_def
        map_of_registry_add)
qed

text \<open>An instance of C10: the buyer joins the completed negotiation \<open>N1\<close>.\<close>

theorem join_ignores_status_witness:
  "authenticated (state_ex ''completed'') 0
   \<and> ''N1'' \<noteq> []
   \<and> negotiations (state_ex ''completed'') ''N1'' = Some (neg_ex ''completed'')
   \<and> status (neg_ex ''completed'') = Some ''completed''
   \<and> userId (sockets (state_ex ''completed'') 0) = Some (buyerId (neg_ex ''completed''))
   \<and> (let s' = handleWebSocketMessage no_faults 0 (join_frame ''N1'') (state_ex ''completed'') in
        0 \<in> set (room_of s' ''N1'')
        \<and> emitted (state_ex ''completed'') s' = [WsSend 0 (NegotiationJoined ''N1'')]
        \<and> readyState (sockets s' 0) = OPEN
        \<and> WsSend 0 (PresenceData []) \<in> set (emitted s' (broadcastToNegotiation ''N1'' (PresenceData []) s')))"
proof -
  have h1: "authenticated (state_ex ''completed'') 0" by simp
  have h2: "''N1'' \<noteq> []" by simp
  have h3: "negotiations (state_ex ''completed'') ''N1'' = Some (neg_ex ''completed'')" by simp
  have h4: "userId (sockets (state_ex ''completed'') 0) = Some (buyerId (neg_ex ''completed''))
      \<or> userId (sockets (state_ex ''completed'') 0) = Some (sellerId (neg_ex ''completed''))" by simp
  have h5: "\<not> no_faults GetNegotiation 0" by simp
  have op: "readyState (sockets (handleWebSocketMessage no_faults 0 (join_frame ''N1'')
      (state_ex ''completed'')) 0) = OPEN"
    unfolding join_succeeds [where fl = no_faults, OF h1 h2 h3 h4 h5]
    by (simp add: ws_send_def state_ex_def sock_ex_def)
  show ?thesis
    using join_ignores_status [where fl = no_faults, OF h1 h2 h3 h4 h5] h1 h3 op
    by (simp add: Let_def)
qed

subsection \<open>The sets of the registry hold no socket twice\<close>

lemma sets_distinct_update:
  "sets_distinct m \<Longrightarrow> distinct xs \<Longrightarrow> sets_distinct (AList.update k xs m)"
  by (induction m) (auto simp: sets_distinct_def)

lemma sets_distinct_delete: "sets_distinct m \<Longrightarrow> sets_distinct (AList.delete k m)"
  by (induction m) (auto simp: sets_distinct_def)

lemma sets_distinct_map_of:
  assumes "sets_distinct m" and "map_of m k = Some xs"
  shows "distinct xs"
proof -
  have "(k, xs) \<in> set m" using assms(2) by (rule map_of_SomeD)
  then have "distinct (snd (k, xs))" using assms(1) unfolding sets_distinct_def by blast
  then show ?thesis by simp
qed

lemma sets_distinct_update_add:
  assumes "sets_distinct m" and "map_of m k = Some xs"
  shows "sets_distinct (AList.update k (set_add ws xs) m)"
proof -
  have "distinct xs" using assms by (rule sets_distinct_map_of)
  then have "distinct (set_add ws xs)" by (simp add: set_add_def)
  then show ?thesis using assms(1) by (simp add: sets_distinct_update)
qed

lemma sets_distinct_update_delete:
  assumes "sets_distinct m" and "map_of m k = Some xs"
  shows "sets_distinct (AList.update k (set_delete ws xs) m)"
proof -
  have "distinct xs" using assms by (rule sets_distinct_map_of)
  then have "distinct (set_delete ws xs)" by (simp add: set_delete_def distinct_removeAll)
  then show ?thesis using assms(1) by (simp add: sets_distinct_update)
qed

lemma distinct_set_delete: "distinct xs \<Longrightarrow> distinct (set_delete x xs)"
  by (simp add: set_delete_def distinct_removeAll)

lemma sets_distinct_registry_add: "sets_distinct m \<Longrightarrow> sets_distinct (registry_add k ws m)"
  by (simp add: registry_add_eq sets_distinct_update sets_distinct_update_add split: option.splits)

lemma sets_distinct_registry_remove: "sets_distinct m \<Longrightarrow> sets_distinct (registry_remove k ws m)"
  by (simp add: registry_remove_def sets_distinct_update_delete sets_distinct_delete
      split: option.splits)

lemma sets_distinct_cleanup_rooms: "sets_distinct m \<Longrightarrow> sets_distinct (cleanup_rooms ws m)"
  by (auto simp: cleanup_rooms_def sets_distinct_def distinct_set_delete)

lemma dispatch_sets_distinct:
  assumes "sets_distinct (negotiationRooms s)" and "sets_distinct (userSockets s)"
  shows "sets_distinct (negotiationRooms (dispatch fl ws vm s))
     \<and> sets_distinct (userSockets (dispatch fl ws vm s))"
proof (cases "(\<exists>n. vm = JoinNegotiation n) \<or> (\<exists>n. vm = LeaveNegotiation n)")
  case True
  then show ?thesis
    using assms
    by (auto simp: handleJoinNegotiation_def handleLeaveNegotiation_def ws_send_def storage_defs
        sets_distinct_registry_add sets_distinct_registry_remove
        split: outcome.splits option.splits)
next
  case False
  then have "same_registry s (dispatch fl ws vm s)"
    by (intro dispatch_same_registry) auto
  then show ?thesis using assms by (simp add: same_registry_def)
qed

lemma on_connection_sets_distinct:
  assumes "sets_distinct (negotiationRooms s)" and "sets_distinct (userSockets s)"
  shows "sets_distinct (negotiationRooms (on_connection jwt_verify fl ws token s))
     \<and> sets_distinct (userSockets (on_connection jwt_verify fl ws token s))"
proof (cases "handshake_fails jwt_verify token")
  case True
  then obtain reason where "on_connection jwt_verify fl ws token s = ws_close ws 1008 reason s"
    using on_connection_fails by blast
  then show ?thesis using assms by (simp add: ws_close_def)
next
  case False
  then obtain t dec uid where ok: "token = Some t" "t \<noteq> []" "jwt_verify t = Some dec"
      "d_userId dec = Some uid" "uid \<noteq> []"
    by (rule handshake_succeeds)
  show ?thesis
    unfolding ok(1) on_connection_succeeds [where jwt_verify = jwt_verify, OF ok(3) ok(2) ok(4) ok(5)]
    using assms by (simp add: sets_distinct_registry_add)
qed

lemma cleanup_sets_distinct:
  assumes "sets_distinct (negotiationRooms s)" and "sets_distinct (userSockets s)"
  shows "sets_distinct (negotiationRooms (cleanupWebSocket fl ws s))
     \<and> sets_distinct (userSockets (cleanupWebSocket fl ws s))"
proof (cases "falsy (userId (sockets s ws))")
  case True
  then have "cleanupWebSocket fl ws s = s" by (simp add: cleanupWebSocket_def)
  then show ?thesis using assms by simp
next
  case False
  then obtain uid where uid: "userId (sockets s ws) = Some uid" "uid \<noteq> []"
    by (auto simp: falsy_def)
  show ?thesis
    unfolding cleanupWebSocket_eq [OF uid, of fl]
    using assms
    by (simp add: sets_distinct_cleanup_rooms sets_distinct_update sets_distinct_delete
        sets_distinct_update_delete split: option.splits)
qed

lemma step_sets_distinct:
  assumes "sets_distinct (negotiationRooms s)" and "sets_distinct (userSockets s)"
  shows "sets_distinct (negotiationRooms (step jwt_verify i s))
     \<and> sets_distinct (userSockets (step jwt_verify i s))"
proof -
  obtain fl inp where i: "i = (fl, inp)" by (cases i)
  show ?thesis
  proof (cases inp)
    case (Connection token)
    have "sets_distinct (negotiationRooms (new_socket s))" "sets_distinct (userSockets (new_socket s))"
      using assms by (simp_all add: new_socket_def)
    then show ?thesis
      using assms by (simp add: i Connection on_connection_sets_distinct)
  next
    case (Message ws data)
    then show ?thesis
      using assms dispatch_sets_distinct [OF assms, of fl ws]
      by (auto simp: i on_message_def handleWebSocketMessage_eq ws_send_def split: option.splits)
  next
    case (Close ws)
    let ?s1 = "s\<lparr>sockets := (sockets s)(ws := (sockets s ws)\<lparr>readyState := CLOSED\<rparr>)\<rparr>"
    have "sets_distinct (negotiationRooms ?s1)" "sets_distinct (userSockets ?s1)"
      using assms by simp_all
    then show ?thesis
      using assms by (simp add: i Close Let_def cleanup_sets_distinct)
  next
    case (SocketError ws)
    then show ?thesis
      using assms by (simp add: i cleanup_sets_distinct)
  qed
qed

lemma run_sets_distinct:
  "sets_distinct (negotiationRooms s) \<Longrightarrow> sets_distinct (userSockets s) \<Longrightarrow>
   sets_distinct (negotiationRooms (run jwt_verify ins s))
   \<and> sets_distinct (userSockets (run jwt_verify ins s))"
proof (induction ins arbitrary: s)
  case Nil
  then show ?case by simp
next
  case (Cons i ins)
  have "sets_distinct (negotiationRooms (step jwt_verify i s))
      \<and> sets_distinct (userSockets (step jwt_verify i s))"
    using Cons.prems by (rule step_sets_distinct)
  then show ?case using Cons.IH by simp
qed

text \<open>In every state the server reaches from its start, no room holds a socket twice: the
  hypothesis of the theorem on joining holds there.\<close>

lemma reachable_room_distinct:
  "distinct (room_of (run jwt_verify ins (init ns us ms)) nid)"
proof -
  have "sets_distinct (negotiationRooms (run jwt_verify ins (init ns us ms)))"
    using run_sets_distinct [of "init ns us ms" jwt_verify ins]
    by (simp add: init_def sets_distinct_def)
  then show ?thesis
    by (auto simp: room_of_def dest: sets_distinct_map_of split: option.splits)
qed


subsection \<open>Presence\<close>

lemma emitted_on_connection:
  assumes "jwt_verify t = Some dec" and "t \<noteq> []" and "d_userId dec = Some uid" and "uid \<noteq> []"
  shows "emitted s (on_connection jwt_verify fl ws (Some t) s) =
     (if fl UpdateUserOnlineStatus 0 then []
      else Storage (WriteOnline uid True) #
           map (\<lambda>c. WsSend c (PresenceUpdate uid (d_username dec) True)) (presence_targets uid s))
     @ [WsSend ws (ConnectionConfirmed (Some uid) (d_username dec))]"
  unfolding on_connection_succeeds [where jwt_verify = jwt_verify, OF assms]
  by (simp add: emitted_def)

lemma emitted_cleanup:
  assumes "userId (sockets s ws) = Some uid" and "uid \<noteq> []"
    and "map_of (userSockets s) uid = Some xs"
  shows "emitted s (cleanupWebSocket fl ws s) =
     (if set_delete ws xs = [] then offline_effects fl uid s else [])"
  unfolding cleanupWebSocket_eq [OF assms(1,2)]
  using assms(3) by (simp add: emitted_def)

text \<open>C4, as amended. The connection handler, once the handshake has succeeded, sends the
  online frame to the open sockets of all other connected users, whatever sockets the user
  already has (unless the storage update throws); \<^verbatim>\<open>cleanupWebSocket\<close> sends the offline
  frame exactly when the user's set is empty after the socket has been taken out of it
  (and then as far as no storage call throws and the user's row exists).\<close>

theorem presence_on_every_handshake_and_last_close:
  "(jwt_verify t = Some dec \<and> t \<noteq> [] \<and> d_userId dec = Some uid \<and> uid \<noteq> [] \<longrightarrow>
      emitted s (on_connection jwt_verify fl ws (Some t) s) =
        (if fl UpdateUserOnlineStatus 0 then []
         else Storage (WriteOnline uid True) #
              map (\<lambda>c. WsSend c (PresenceUpdate uid (d_username dec) True)) (presence_targets uid s))
        @ [WsSend ws (ConnectionConfirmed (Some uid) (d_username dec))])
   \<and> (userId (sockets s c) = Some u \<and> u \<noteq> [] \<and> map_of (userSockets s) u = Some xs \<longrightarrow>
      emitted s (cleanupWebSocket fl c s) =
        (if set_delete c xs = [] then offline_effects fl u s else []))"
  using emitted_on_connection [of jwt_verify t dec uid s fl ws] emitted_cleanup [of s c u xs fl]
  by blast

lemma jwt_ex_t1 [simp]: "jwt_ex ''t1'' = Some \<lparr>d_userId = Some ''U1'', d_username = Some ''alice''\<rparr>"
  by (simp add: jwt_ex_def)

text \<open>C4 as stated fails: \<open>U1\<close> has one socket and connects a second one; the socket of
  \<open>U2\<close> is sent the online frame although the count of \<open>U1\<close> goes from 1 to 2.\<close>

theorem second_device_presence_counterexample:
  "map_of (userSockets (state_ex ''active'')) ''U1'' = Some [0]
   \<and> (let s' = step jwt_ex (no_faults, Connection (Some ''t1'')) (state_ex ''active'')
       in map_of (userSockets s') ''U1'' = Some [0, 2]
          \<and> emitted (state_ex ''active'') s' =
               [Storage (WriteOnline ''U1'' True),
                WsSend 1 (PresenceUpdate ''U1'' (Some ''alice'') True),
                WsSend 2 (ConnectionConfirmed (Some ''U1'') (Some ''alice''))])"
proof -
  have nc: "next_conn (state_ex ''active'') = 2"
    by (simp add: state_ex_def)
  have eq: "step jwt_ex (no_faults, Connection (Some ''t1'')) (state_ex ''active'') =
      on_connection jwt_ex no_faults 2 (Some ''t1'') (new_socket (state_ex ''active''))"
    by (simp add: nc verifyClient_def falsy_def)
  have ok: "jwt_ex ''t1'' = Some \<lparr>d_userId = Some ''U1'', d_username = Some ''alice''\<rparr>"
    "''t1'' \<noteq> []" "d_userId \<lparr>d_userId = Some ''U1'', d_username = Some ''alice''\<rparr> = Some ''U1''"
    "''U1'' \<noteq> []"
    by simp_all
  show ?thesis
    unfolding eq on_connection_succeeds [where jwt_verify = jwt_ex, OF ok]
    by (simp add: Let_def emitted_def new_socket_def state_ex_def sock_ex_def registry_add_eq
        set_add_def presence_targets_def open_of_def)
qed

text \<open>An instance of the amended C4: a handshake of \<open>U1\<close> with one socket already
  connected, and the close of the only socket of \<open>U1\<close>.\<close>

theorem presence_on_every_handshake_and_last_close_witness:
  "jwt_ex ''t1'' = Some \<lparr>d_userId = Some ''U1'', d_username = Some ''alice''\<rparr>
   \<and> map_of (userSockets (state_ex ''active'')) ''U1'' = Some [0]
   \<and> emitted (state_ex ''active'') (on_connection jwt_ex no_faults 5 (Some ''t1'') (state_ex ''active'')) =
        [Storage (WriteOnline ''U1'' True),
         WsSend 1 (PresenceUpdate ''U1'' (Some ''alice'') True),
         WsSend 5 (ConnectionConfirmed (Some ''U1'') (Some ''alice''))]
   \<and> userId (sockets (state_ex ''active'') 0) = Some ''U1''
   \<and> emitted (state_ex ''active'') (cleanupWebSocket no_faults 0 (state_ex ''active'')) =
        [Storage (WriteOnline ''U1'' False), Storage (WriteLastSeen ''U1''),
         WsSend 1 (PresenceUpdate ''U1'' (Some ''alice'') False)]"
proof -
  have h1: "jwt_ex ''t1'' = Some \<lparr>d_userId = Some ''U1'', d_username = Some ''alice''\<rparr>"
    by simp
  have h2: "map_of (userSockets (state_ex ''active'')) ''U1'' = Some [0]"
    by (simp add: state_ex_def)
  have h3: "userId (sockets (state_ex ''active'') 0) = Some ''U1''"
    by simp
  have pt: "presence_targets ''U1'' (state_ex ''active'') = [1]"
    by (simp add: presence_targets_def open_of_def state_ex_def sock_ex_def)
  show ?thesis
    using presence_on_every_handshake_and_last_close [where jwt_verify = jwt_ex and t = "''t1''"
        and dec = "\<lparr>d_userId = Some ''U1'', d_username = Some ''alice''\<rparr>" and uid = "''U1''"
        and s = "state_ex ''active''" and fl = no_faults and ws = 5 and c = 0 and u = "''U1''"
        and xs = "[0]"] h1 h2 h3
    by (simp add: pt offline_effects_def set_delete_def users_ex_def or_else_def)
qed

subsection \<open>The client's reconnection\<close>

lemma send_join_connected:
  assumes "c_ws c = Some sock" and "isConnected c"
  shows "send (join_frame nid) c = c\<lparr>ws_sent := ws_sent c @ [(sock, JoinNegotiation nid)]\<rparr>"
  using assms by (simp add: send_def)

lemma rejoin_fold:
  assumes "c_ws c = Some sock" and "isConnected c"
  shows "foldl (\<lambda>c' nid. send (join_frame nid) c') c rooms =
     c\<lparr>ws_sent := ws_sent c @ map (\<lambda>nid. (sock, JoinNegotiation nid)) rooms\<rparr>"
  using assms
proof (induction rooms arbitrary: c)
  case Nil
  show ?case by simp
next
  case (Cons r rooms)
  let ?c1 = "c\<lparr>ws_sent := ws_sent c @ [(sock, JoinNegotiation r)]\<rparr>"
  have first: "send (join_frame r) c = ?c1"
    using Cons.prems by (rule send_join_connected)
  have "c_ws ?c1 = Some sock" "isConnected ?c1"
    using Cons.prems by (simp_all add: isConnected_def)
  then have "foldl (\<lambda>c' nid. send (join_frame nid) c') ?c1 rooms =
      ?c1\<lparr>ws_sent := ws_sent ?c1 @ map (\<lambda>nid. (sock, JoinNegotiation nid)) rooms\<rparr>"
    by (rule Cons.IH)
  then show ?case by (simp add: first)
qed

lemma ws_onopen_eq:
  assumes "c_ws c = Some sock"
  shows "ws_onopen c =
     c\<lparr>connectionState := \<lparr>cs_status = connected, cs_error = cs_error (connectionState c),
                            retryCount = 0\<rparr>,
       ws_sent := ws_sent c @ map (\<lambda>nid. (sock, JoinNegotiation nid)) (currentNegotiationRooms c)\<rparr>"
proof -
  let ?c1 = "updateConnectionState connected None 0 c"
  have "c_ws ?c1 = Some sock" "isConnected ?c1"
    using assms by (simp_all add: updateConnectionState_def isConnected_def)
  then have "foldl (\<lambda>c' nid. send (join_frame nid) c') ?c1 (currentNegotiationRooms ?c1) =
      ?c1\<lparr>ws_sent := ws_sent ?c1 @ map (\<lambda>nid. (sock, JoinNegotiation nid)) (currentNegotiationRooms ?c1)\<rparr>"
    by (rule rejoin_fold)
  then show ?thesis
    by (simp add: ws_onopen_def Let_def) (simp add: updateConnectionState_def)
qed

lemma ensureValidToken_obtained:
  assumes "token_obtained now api c"
  obtains c' where "ensureValidToken now api c = (None, c')" and "\<not> falsy (c_token c')"
    and "c_ws c' = c_ws c" and "connectionState c' = connectionState c"
    and "ws_sent c' = ws_sent c" and "currentNegotiationRooms c' = currentNegotiationRooms c"
    and "isUserDisconnected c' = isUserDisconnected c"
proof (cases "\<not> falsy (c_token c) \<and> tokenExpiresAt c > now + 2 * 60 * 1000")
  case True
  then have "ensureValidToken now api c = (None, c)"
    by (simp add: ensureValidToken_def)
  then show ?thesis using True that by blast
next
  case False
  then obtain tok expiresIn where api: "api = Inr (tok, expiresIn)" and tok: "tok \<noteq> []"
    using assms by (auto simp: token_obtained_def split: sum.splits)
  define c1 where "c1 = clearTokenRefreshTimeout (c\<lparr>c_token := Some tok, tokenExpiresAt := now + expiresIn\<rparr>)"
  define c' where "c' = (if expiresIn - 2 * 60 * 1000 > 0
      then c1\<lparr>tokenRefreshTimeout := Some (expiresIn - 2 * 60 * 1000)\<rparr> else c1)"
  have "ensureValidToken now api c = (None, c')"
    using False by (auto simp: ensureValidToken_def api c'_def c1_def Let_def)
  moreover have "\<not> falsy (c_token c')" "c_ws c' = c_ws c" "connectionState c' = connectionState c"
    "ws_sent c' = ws_sent c" "currentNegotiationRooms c' = currentNegotiationRooms c"
    "isUserDisconnected c' = isUserDisconnected c"
    using tok by (simp_all add: c'_def c1_def clearTokenRefreshTimeout_def falsy_def)
  ultimately show ?thesis using that by blast
qed

lemma ensureValidToken_failed:
  assumes "\<not> token_obtained now api c"
  obtains m c' where "ensureValidToken now api c = (m, c')" and "m \<noteq> None \<or> falsy (c_token c')"
    and "c_ws c' = c_ws c" and "connectionState c' = connectionState c"
    and "isUserDisconnected c' = isUserDisconnected c"
proof (cases api)
  case (Inl msg)
  have "ensureValidToken now api c = (Some msg, c\<lparr>c_token := None, tokenExpiresAt := 0\<rparr>)"
    using assms by (auto simp: ensureValidToken_def token_obtained_def Inl)
  then show ?thesis using that by simp
next
  case (Inr p)
  obtain tok expiresIn where p: "p = (tok, expiresIn)" by (cases p)
  have tok: "tok = []" and stale: "\<not> (\<not> falsy (c_token c) \<and> tokenExpiresAt c > now + 2 * 60 * 1000)"
    using assms by (auto simp: token_obtained_def Inr p)
  define c1 where "c1 = clearTokenRefreshTimeout (c\<lparr>c_token := Some tok, tokenExpiresAt := now + expiresIn\<rparr>)"
  define c' where "c' = (if expiresIn - 2 * 60 * 1000 > 0
      then c1\<lparr>tokenRefreshTimeout := Some (expiresIn - 2 * 60 * 1000)\<rparr> else c1)"
  have "ensureValidToken now api c = (None, c')"
    using stale by (auto simp: ensureValidToken_def Inr p c'_def c1_def Let_def)
  moreover have "falsy (c_token c')" "c_ws c' = c_ws c" "connectionState c' = connectionState c"
    "isUserDisconnected c' = isUserDisconnected c"
    using tok by (simp_all add: c'_def c1_def clearTokenRefreshTimeout_def falsy_def)
  ultimately show ?thesis using that by blast
qed

lemma timer_fires_with_token:
  assumes "\<not> isUserDisconnected c" and "c_ws c = None" and "token_obtained now api c"
  shows "c_ws (reconnect_timer_fires now api new c) = Some new
     \<and> cs_status (connectionState (reconnect_timer_fires now api new c)) = connecting
     \<and> retryCount (connectionState (reconnect_timer_fires now api new c)) = retryCount (connectionState c)
     \<and> ws_sent (reconnect_timer_fires now api new c) = ws_sent c
     \<and> currentNegotiationRooms (reconnect_timer_fires now api new c) = currentNegotiationRooms c
     \<and> isUserDisconnected (reconnect_timer_fires now api new c) = False"
proof -
  define c1 where "c1 = updateConnectionState connecting None (retryCount (connectionState c)) c"
  have "token_obtained now api c1"
    using assms(3) by (simp add: token_obtained_def c1_def updateConnectionState_def)
  then obtain c2 where c2: "ensureValidToken now api c1 = (None, c2)" "\<not> falsy (c_token c2)"
    "connectionState c2 = connectionState c1"
    "ws_sent c2 = ws_sent c1" "currentNegotiationRooms c2 = currentNegotiationRooms c1"
    "isUserDisconnected c2 = isUserDisconnected c1"
    by (rule ensureValidToken_obtained)
  have "reconnect_timer_fires now api new c = c2\<lparr>c_ws := Some new\<rparr>"
    using assms(1) c2(1,2)
    by (simp add: reconnect_timer_fires_def establishConnection_def c1_def [symmetric] Let_def)
  then show ?thesis
    using c2(3-6) assms(1) by (simp add: c1_def updateConnectionState_def)
qed

lemma timer_fires_without_token:
  assumes "\<not> isUserDisconnected c" and "c_ws c = None" and "\<not> token_obtained now api c"
  shows "c_ws (reconnect_timer_fires now api new c) = None
     \<and> cs_status (connectionState (reconnect_timer_fires now api new c)) = reconnecting
     \<and> retryCount (connectionState (reconnect_timer_fires now api new c)) =
         retryCount (connectionState c) + 1
     \<and> reconnectTimeout (reconnect_timer_fires now api new c) =
         Some (backoff_delay (retryCount (connectionState c) + 1))"
proof -
  define c1 where "c1 = updateConnectionState connecting None (retryCount (connectionState c)) c"
  define failed where "failed = (\<lambda>msg c'.
            let c2 = updateConnectionState error (Some msg) (retryCount (connectionState c')) c'
            in if \<not> isUserDisconnected c2 then scheduleReconnect c2 else c2)"
  have "\<not> token_obtained now api c1"
    using assms(3) by (simp add: token_obtained_def c1_def updateConnectionState_def)
  then obtain m c2 where c2: "ensureValidToken now api c1 = (m, c2)" "m \<noteq> None \<or> falsy (c_token c2)"
    "c_ws c2 = c_ws c1" "connectionState c2 = connectionState c1"
    "isUserDisconnected c2 = isUserDisconnected c1"
    by (rule ensureValidToken_failed)
  have f: "c_ws (failed msg c2) = None
     \<and> cs_status (connectionState (failed msg c2)) = reconnecting
     \<and> retryCount (connectionState (failed msg c2)) = retryCount (connectionState c) + 1
     \<and> reconnectTimeout (failed msg c2) = Some (backoff_delay (retryCount (connectionState c) + 1))"
    for msg
    using c2(3-5) assms(1,2)
    by (simp add: failed_def c1_def updateConnectionState_def scheduleReconnect_def
        clearReconnectTimeout_def Let_def)
  have "reconnect_timer_fires now api new c =
      failed (case m of None \<Rightarrow> ''Failed to obtain WebSocket token'' | Some msg \<Rightarrow> msg) c2"
    using assms(1) c2(1,2)
    by (cases m)
      (simp_all add: reconnect_timer_fires_def establishConnection_def c1_def [symmetric]
        failed_def Let_def)
  then show ?thesis
    using f by simp
qed

lemma ws_onclose_unexpected:
  assumes "\<not> isUserDisconnected c"
  shows "c_ws (ws_onclose c) = None \<and> \<not> isUserDisconnected (ws_onclose c)
     \<and> retryCount (connectionState (ws_onclose c)) = retryCount (connectionState c) + 1
     \<and> reconnectTimeout (ws_onclose c) = Some (backoff_delay (retryCount (connectionState c) + 1))
     \<and> cs_status (connectionState (ws_onclose c)) = reconnecting
     \<and> ws_sent (ws_onclose c) = ws_sent c
     \<and> currentNegotiationRooms (ws_onclose c) = currentNegotiationRooms c
     \<and> c_token (ws_onclose c) = c_token c \<and> tokenExpiresAt (ws_onclose c) = tokenExpiresAt c"
  using assms
  by (simp add: ws_onclose_def scheduleReconnect_def updateConnectionState_def
      clearReconnectTimeout_def Let_def)

lemma error_then_close:
  assumes "\<not> isUserDisconnected c"
  shows "retryCount (connectionState (ws_onclose (ws_onerror c))) = retryCount (connectionState c) + 1
     \<and> reconnectTimeout (ws_onclose (ws_onerror c)) =
         Some (backoff_delay (retryCount (connectionState c) + 1))"
  using assms
  by (simp add: ws_onerror_def ws_onclose_def scheduleReconnect_def updateConnectionState_def
      clearReconnectTimeout_def Let_def)

text \<open>C8. An unexpected close (the user has not disconnected) raises the retry counter by
  one, to \<open>n\<close>, and sets the reconnect timer to \<open>min (1000 * 2 ^ n) 30000\<close> milliseconds;
  after \<^verbatim>\<open>disconnect\<close> a close schedules nothing; when the socket opens the counter is
  zero again and one \<^verbatim>\<open>join_negotiation\<close> frame is sent for every room joined before,
  in the order of the set.

  When the timer fires, the attempt is made: the callback is \<^verbatim>\<open>establishConnection\<close>.
  With a token it creates the new socket, the counter still \<open>n\<close>; when that socket opens,
  the counter is zero and the rooms are joined again on it; when it fails and closes, the
  counter is \<open>n + 1\<close> and the next delay is computed from that. Without a token no socket
  is created, and the next retry is scheduled at once, with the counter \<open>n + 1\<close>. After
  \<^verbatim>\<open>disconnect\<close> the callback does nothing.\<close>

theorem reconnect_backoff_and_rejoin:
  "(\<not> isUserDisconnected c \<longrightarrow>
      (let c' = ws_onclose c; n = retryCount (connectionState c) + 1 in
         retryCount (connectionState c') = n
         \<and> reconnectTimeout c' = Some (min (1000 * 2 ^ n) 30000)
         \<and> cs_status (connectionState c') = reconnecting))
   \<and> (isUserDisconnected c \<longrightarrow>
      reconnectTimeout (ws_onclose c) = reconnectTimeout c
      \<and> retryCount (connectionState (ws_onclose c)) = 0)
   \<and> (isUserDisconnected (disconnect c) \<and> reconnectTimeout (disconnect c) = None)
   \<and> (c_ws c = Some sock \<longrightarrow>
      (let c' = ws_onopen c in
         retryCount (connectionState c') = 0
         \<and> cs_status (connectionState c') = connected
         \<and> ws_sent c' = ws_sent c @ map (\<lambda>nid. (sock, JoinNegotiation nid)) (currentNegotiationRooms c)))
   \<and> (\<not> isUserDisconnected c \<longrightarrow>
      (let n = retryCount (connectionState c) + 1;
           c1 = reconnect_timer_fires now api new (ws_onclose c) in
         c1 = establishConnection now api new (ws_onclose c)
         \<and> (if token_obtained now api c
            then c_ws c1 = Some new
               \<and> cs_status (connectionState c1) = connecting
               \<and> retryCount (connectionState c1) = n
               \<and> (let c2 = ws_onopen c1 in
                    retryCount (connectionState c2) = 0
                    \<and> cs_status (connectionState c2) = connected
                    \<and> ws_sent c2 =
                        ws_sent c @ map (\<lambda>nid. (new, JoinNegotiation nid)) (currentNegotiationRooms c))
               \<and> (let c3 = ws_onclose (ws_onerror c1) in
                    retryCount (connectionState c3) = n + 1
                    \<and> reconnectTimeout c3 = Some (min (1000 * 2 ^ (n + 1)) 30000))
            else c_ws c1 = None
               \<and> cs_status (connectionState c1) = reconnecting
               \<and> retryCount (connectionState c1) = n + 1
               \<and> reconnectTimeout c1 = Some (min (1000 * 2 ^ (n + 1)) 30000))))
   \<and> (isUserDisconnected c \<longrightarrow> reconnect_timer_fires now api new c = c)"
proof -
  have opened: "ws_sent (ws_onopen c) = ws_sent c @ map (\<lambda>nid. (sock, JoinNegotiation nid)) (currentNegotiationRooms c)
      \<and> retryCount (connectionState (ws_onopen c)) = 0
      \<and> cs_status (connectionState (ws_onopen c)) = connected"
    if "c_ws c = Some sock" for c :: client and sock
    by (simp add: ws_onopen_eq [OF that])
  have first: "(\<not> isUserDisconnected c \<longrightarrow>
      (let c' = ws_onclose c; n = retryCount (connectionState c) + 1 in
         retryCount (connectionState c') = n
         \<and> reconnectTimeout c' = Some (min (1000 * 2 ^ n) 30000)
         \<and> cs_status (connectionState c') = reconnecting))
   \<and> (isUserDisconnected c \<longrightarrow>
      reconnectTimeout (ws_onclose c) = reconnectTimeout c
      \<and> retryCount (connectionState (ws_onclose c)) = 0)
   \<and> (isUserDisconnected (disconnect c) \<and> reconnectTimeout (disconnect c) = None)
   \<and> (c_ws c = Some sock \<longrightarrow>
      (let c' = ws_onopen c in
         retryCount (connectionState c') = 0
         \<and> cs_status (connectionState c') = connected
         \<and> ws_sent c' = ws_sent c @ map (\<lambda>nid. (sock, JoinNegotiation nid)) (currentNegotiationRooms c)))"
    using opened [of c sock]
    by (simp add: ws_onclose_def scheduleReconnect_def updateConnectionState_def
        clearReconnectTimeout_def clearTokenRefreshTimeout_def disconnect_def backoff_delay_def
        Let_def mult.commute)
  have attempt: "let n = retryCount (connectionState c) + 1;
           c1 = reconnect_timer_fires now api new (ws_onclose c) in
         c1 = establishConnection now api new (ws_onclose c)
         \<and> (if token_obtained now api c
            then c_ws c1 = Some new
               \<and> cs_status (connectionState c1) = connecting
               \<and> retryCount (connectionState c1) = n
               \<and> (let c2 = ws_onopen c1 in
                    retryCount (connectionState c2) = 0
                    \<and> cs_status (connectionState c2) = connected
                    \<and> ws_sent c2 =
                        ws_sent c @ map (\<lambda>nid. (new, JoinNegotiation nid)) (currentNegotiationRooms c))
               \<and> (let c3 = ws_onclose (ws_onerror c1) in
                    retryCount (connectionState c3) = n + 1
                    \<and> reconnectTimeout c3 = Some (min (1000 * 2 ^ (n + 1)) 30000))
            else c_ws c1 = None
               \<and> cs_status (connectionState c1) = reconnecting
               \<and> retryCount (connectionState c1) = n + 1
               \<and> reconnectTimeout c1 = Some (min (1000 * 2 ^ (n + 1)) 30000))"
    if live: "\<not> isUserDisconnected c"
  proof -
    define c0 where "c0 = ws_onclose c"
    define c1 where "c1 = reconnect_timer_fires now api new c0"
    note closed = ws_onclose_unexpected [OF live, folded c0_def]
    have tok: "token_obtained now api c0 = token_obtained now api c"
      using closed by (simp add: token_obtained_def)
    have est: "c1 = establishConnection now api new c0"
      using closed by (simp add: c1_def reconnect_timer_fires_def)
    show ?thesis
    proof (cases "token_obtained now api c")
      case True
      then have t0: "token_obtained now api c0" by (simp add: tok)
      have made: "c_ws c1 = Some new" "cs_status (connectionState c1) = connecting"
        "retryCount (connectionState c1) = retryCount (connectionState c) + 1"
        "ws_sent c1 = ws_sent c" "currentNegotiationRooms c1 = currentNegotiationRooms c"
        "\<not> isUserDisconnected c1"
        using timer_fires_with_token [where now = now and api = api and new = new and c = c0, folded c1_def]
          closed t0
        by simp_all
      have "retryCount (connectionState (ws_onclose (ws_onerror c1))) =
            retryCount (connectionState c) + 1 + 1
          \<and> reconnectTimeout (ws_onclose (ws_onerror c1)) =
            Some (min (1000 * 2 ^ (retryCount (connectionState c) + 1 + 1)) 30000)"
        using error_then_close [OF made(6)] by (simp add: made(3) backoff_delay_def mult.commute)
      then show ?thesis
        using True est made(1-3) opened [OF made(1)] made(4,5)
        unfolding Let_def c0_def [symmetric] c1_def [symmetric]
        by simp
    next
      case False
      then have t0: "\<not> token_obtained now api c0" by (simp add: tok)
      have "c_ws c1 = None" "cs_status (connectionState c1) = reconnecting"
        "retryCount (connectionState c1) = retryCount (connectionState c) + 1 + 1"
        "reconnectTimeout c1 = Some (min (1000 * 2 ^ (retryCount (connectionState c) + 1 + 1)) 30000)"
        using timer_fires_without_token [where now = now and api = api and new = new and c = c0, folded c1_def]
          closed t0
        by (simp_all add: backoff_delay_def mult.commute)
      then show ?thesis
        using False est
        unfolding Let_def c0_def [symmetric] c1_def [symmetric]
        by simp
    qed
  qed
  have last: "isUserDisconnected c \<longrightarrow> reconnect_timer_fires now api new c = c"
    by (simp add: reconnect_timer_fires_def)
  show ?thesis
    using first attempt last by blast
qed

text \<open>An instance of C8: the fourth retry waits 16 seconds, the fifth 30 (the ceiling);
  on open both rooms are joined again. When the timer of the fourth retry fires, the
  socket 8 is created (the cached token is good), and both rooms are joined on it when it
  opens.\<close>

theorem reconnect_backoff_and_rejoin_witness:
  "\<not> isUserDisconnected client_ex
   \<and> c_ws client_ex = Some 7
   \<and> retryCount (connectionState client_ex) = 3
   \<and> retryCount (connectionState (ws_onclose client_ex)) = 4
   \<and> reconnectTimeout (ws_onclose client_ex) = Some 16000
   \<and> reconnectTimeout (ws_onclose (ws_onclose client_ex)) = Some 30000
   \<and> retryCount (connectionState (ws_onopen client_ex)) = 0
   \<and> ws_sent (ws_onopen client_ex) = [(7, JoinNegotiation ''N1''), (7, JoinNegotiation ''N2'')]
   \<and> token_obtained 0 (Inl ''offline'') client_ex
   \<and> c_ws (reconnect_timer_fires 0 (Inl ''offline'') 8 (ws_onclose client_ex)) = Some 8
   \<and> retryCount (connectionState
        (reconnect_timer_fires 0 (Inl ''offline'') 8 (ws_onclose client_ex))) = 4
   \<and> ws_sent (ws_onopen (reconnect_timer_fires 0 (Inl ''offline'') 8 (ws_onclose client_ex))) =
        [(8, JoinNegotiation ''N1''), (8, JoinNegotiation ''N2'')]
   \<and> retryCount (connectionState
        (ws_onopen (reconnect_timer_fires 0 (Inl ''offline'') 8 (ws_onclose client_ex)))) = 0"
proof -
  have h1: "\<not> isUserDisconnected client_ex" by (simp add: client_ex_def)
  have h2: "c_ws client_ex = Some 7" by (simp add: client_ex_def)
  have h3: "retryCount (connectionState client_ex) = 3" by (simp add: client_ex_def)
  have h4: "\<not> isUserDisconnected (ws_onclose client_ex)"
    "retryCount (connectionState (ws_onclose client_ex)) = 4"
    by (simp_all add: client_ex_def ws_onclose_def scheduleReconnect_def updateConnectionState_def
        clearReconnectTimeout_def Let_def)
  have h5: "ws_sent client_ex = []" "currentNegotiationRooms client_ex = [''N1'', ''N2'']"
    by (simp_all add: client_ex_def)
  have h6: "token_obtained 0 (Inl ''offline'') client_ex"
    by (simp add: token_obtained_def client_ex_def falsy_def)
  show ?thesis
    using reconnect_backoff_and_rejoin [where c = client_ex and sock = 7 and now = 0
        and api = "Inl ''offline''" and new = 8]
      reconnect_backoff_and_rejoin [where c = "ws_onclose client_ex" and sock = 7 and now = 0
        and api = "Inl ''offline''" and new = 8] h1 h2 h3 h4 h5 h6
    by (simp add: Let_def reconnect_timer_fires_def)
qed

end
